theory Spec2Isabelle
  imports Main "HOL-Library.Sublist" "HOL-Library.Word"
begin

section \<open>Go values used by the proxy server\<close>

text \<open>
  A Go string is a sequence of bytes: \<^typ>\<open>string\<close>. A Go slice is either \<open>nil\<close> or a
  (possibly empty) sequence; \<open>cmp.Equal\<close> tells the two apart, so a slice is an optional
  list with \<open>None\<close> for \<open>nil\<close>. A byte slice holds the same bytes as a string.
\<close>

type_synonym 'a slice = "'a list option"

text \<open>Errors are values; a run-time panic is kept apart from an \<open>error\<close> return.\<close>

datatype error = Err string | Panic string

subsection \<open>Package \<open>strings\<close> and \<open>strconv\<close>\<close>

text \<open>\<open>strings.HasPrefix(s, prefix)\<close>, \<open>strings.HasSuffix(s, suffix)\<close>,
  \<open>strings.Contains(s, substr)\<close>.\<close>

fun HasPrefix :: "string \<Rightarrow> string \<Rightarrow> bool" where
  "HasPrefix s [] = True"
| "HasPrefix [] (p # ps) = False"
| "HasPrefix (c # cs) (p # ps) = (c = p \<and> HasPrefix cs ps)"

definition HasSuffix :: "string \<Rightarrow> string \<Rightarrow> bool" where
  "HasSuffix s suf = HasPrefix (rev s) (rev suf)"

fun Contains :: "string \<Rightarrow> string \<Rightarrow> bool" where
  "Contains [] substr = (substr = [])"
| "Contains (c # cs) substr = (HasPrefix (c # cs) substr \<or> Contains cs substr)"

text \<open>\<open>strings.ToLower\<close> on a string of ASCII bytes: the letters \<open>A\<close> to \<open>Z\<close> are moved
  to \<open>a\<close> to \<open>z\<close>, every other byte is kept. (On other strings the library maps Unicode
  code points; the functions below take the lower-casing function as an argument, and
  this one is the instance used on ASCII inputs.)\<close>

definition asciiLowerChar :: "char \<Rightarrow> char" where
  "asciiLowerChar c =
     (let n = (of_char c :: nat)
      in if 65 \<le> n \<and> n \<le> 90 then char_of (n + 32) else c)"

definition asciiToLower :: "string \<Rightarrow> string" where
  "asciiToLower s = map asciiLowerChar s"

text \<open>\<open>strconv.Itoa\<close>: the decimal digits of an integer, with a sign when negative.\<close>

definition digitChar :: "nat \<Rightarrow> char" where
  "digitChar d = char_of (48 + d)"

fun natDigits :: "nat \<Rightarrow> string" where
  "natDigits n = (if n < 10 then [digitChar n] else natDigits (n div 10) @ [digitChar (n mod 10)])"

declare natDigits.simps [simp del]

definition Itoa :: "int \<Rightarrow> string" where
  "Itoa i = (if i < 0 then CHR ''-'' # natDigits (nat (- i)) else natDigits (nat i))"

section \<open>The data of the proxy server\<close>

text \<open>\<open>headerCopy\<close>: the subset of headers that is compared between two requests.\<close>

record headerCopy =
  Host :: "string slice"
  Accept :: "string slice"
  UserAgent :: "string slice"
  Connection :: "string slice"
  ContentType :: "string slice"
  ContentLength :: "string slice"
  AcceptEncoding :: "string slice"

text \<open>\<open>RequestCopy\<close>: the representation of a request that is compared with the next.\<close>

record RequestCopy =
  Method :: string
  TargetURL :: string
  TargetURI :: string
  Header :: headerCopy
  Body :: "char slice"

text \<open>\<open>ProxyServer\<close>, without its logger. \<open>requestDelay\<close> is a \<open>uint\<close> (64 bits).\<close>

record ProxyServer =
  debug :: bool
  targetURL :: string
  requestDelay :: "64 word"
  bodyMethodsOnly :: bool
  rejectWith :: string
  rejectExact :: bool
  rejectInsensitive :: bool
  priorRequest :: RequestCopy

text \<open>\<open>proxyErrorResponse\<close>: the error that is marshalled into JSON.\<close>

record proxyErrorResponse =
  Code :: string
  Msg :: string

subsection \<open>Requests, URLs and responses of \<open>net/http\<close>\<close>

text \<open>\<open>http.Header\<close> is a map from header names to value slices; it is kept as the list
  of its entries, which is what \<open>range\<close> walks through (in no fixed order). Every call
  of \<open>Get\<close> and \<open>Del\<close> in the source passes a name that is already in canonical form.\<close>

type_synonym header = "(string \<times> string slice) list"

definition Header_Get :: "header \<Rightarrow> string \<Rightarrow> string" where
  "Header_Get h k =
     (case map_of h k of
        None \<Rightarrow> []
      | Some None \<Rightarrow> []
      | Some (Some []) \<Rightarrow> []
      | Some (Some (v # vs)) \<Rightarrow> v)"

definition Header_Del :: "header \<Rightarrow> string \<Rightarrow> header" where
  "Header_Del h k = filter (\<lambda>kv. fst kv \<noteq> k) h"

record url =
  u_Scheme :: string
  u_Host :: string
  u_Path :: string
  u_RawPath :: string
  u_RawQuery :: string

text \<open>A request body: the \<open>nil\<close> reader, \<open>http.NoBody\<close>, or a reader that yields some
  bytes and then ends, with an error or without.\<close>

datatype readcloser = NilBody | NoBody | Stream string "string option"

record request =
  r_Method :: string
  r_RequestURI :: string
  r_Host :: string
  r_Header :: header
  r_Body :: readcloser
  r_URL :: url

text \<open>What was written to the \<open>http.ResponseWriter\<close>.\<close>

record response =
  status :: int
  w_Header :: "(string \<times> string) list"
  w_Body :: string

text \<open>The library and the network, as far as the handler calls them: \<open>strings.ToLower\<close>,
  \<open>url.Parse\<close>, the method \<open>EscapedPath\<close> of a URL, \<open>json.Marshal\<close> of an error
  response, \<open>http.Client.Do\<close> (status and body of the backend's answer) and
  \<open>uuid.NewString\<close>.\<close>

record runtime =
  ToLower :: "string \<Rightarrow> string"
  url_Parse :: "string \<Rightarrow> url option"
  EscapedPath :: "url \<Rightarrow> string"
  json_Marshal :: "proxyErrorResponse \<Rightarrow> string option"
  client_Do :: "request \<Rightarrow> (int \<times> string) option"
  uuid_NewString :: string

section \<open>The methods of \<open>ProxyServer\<close>\<close>

subsection \<open>\<open>validateRequestBody\<close>\<close>

text \<open>The loop over \<open>invalid\<close>: the first candidate found in the body ends it.\<close>

fun findInvalid :: "string \<Rightarrow> string \<Rightarrow> string list \<Rightarrow> string option" where
  "findInvalid b v [] = None"
| "findInvalid b v (c # cs) =
     (if Contains b c
      then Some (''rejected because `'' @ v @ ''` found within request body'')
      else findInvalid b v cs)"

definition validateRequestBody :: "(string \<Rightarrow> string) \<Rightarrow> ProxyServer \<Rightarrow> string \<Rightarrow> string option" where
  \<open>validateRequestBody lower s b0 =
     (let v0 = rejectWith s;
          b = (if rejectInsensitive s then lower b0 else b0);
          v = (if rejectInsensitive s then lower v0 else v0);
          invalid =
            (if rejectExact s
             then ['' '' @ v @ '' '', ''"'' @ v @ ''"'', '' '' @ v @ ''"'', ''"'' @ v @ '' '']
             else [v])
      in findInvalid b v invalid)\<close>

subsection \<open>\<open>writeError\<close>\<close>

text \<open>What a call of the handler leaves on the \<open>http.ResponseWriter\<close>: an error written
  by \<open>writeError\<close>, the backend's answer, or nothing after a panic.\<close>

datatype reply = ErrorWritten response | Proxied response | Panicked string

text \<open>\<open>w.WriteHeader(code)\<close> panics for a status code that is not between 100 and 999;
  nothing has been written then. (A code from 100 to 199 is accepted; whether it ends
  up as the status of the response depends on the version of \<open>net/http\<close>, and the
  handler passes none.)\<close>

definition validStatusCode :: "int \<Rightarrow> bool" where
  "validStatusCode code = (100 \<le> code \<and> code \<le> 999)"

definition writeError :: "runtime \<Rightarrow> int \<Rightarrow> string \<Rightarrow> reply" where
  \<open>writeError rt code msg =
     (let codeString = Itoa code;
          errJSON = \<lparr>Code = codeString, Msg = msg\<rparr>;
          buf = (case json_Marshal rt errJSON of
                   Some b \<Rightarrow> b
                 | None \<Rightarrow> ''{"code": "'' @ codeString @
                     ''""msg": "There was a response that could not be serialized into JSON"}'')
      in if \<not> validStatusCode code
         then Panicked (''invalid WriteHeader code '' @ codeString)
         else ErrorWritten
                \<lparr>status = code,
                 w_Header = [(''Content-Type'', ''application/json''),
                             (''Content-Length'', Itoa (int (length buf)))],
                 w_Body = buf\<rparr>)\<close>

subsection \<open>\<open>copyBody\<close> and \<open>io.ReadAll\<close>\<close>

fun ReadAll :: "readcloser \<Rightarrow> error + string" where
  "ReadAll NilBody = Inl (Panic ''nil pointer dereference'')"
| "ReadAll NoBody = Inr []"
| "ReadAll (Stream bs None) = Inr bs"
| "ReadAll (Stream bs (Some e)) = Inl (Err e)"

definition copyBody :: "readcloser \<Rightarrow> error + (readcloser \<times> readcloser)" where
  "copyBody b =
     (if b = NilBody \<or> b = NoBody then Inr (NoBody, NoBody)
      else case ReadAll b of
             Inl e \<Rightarrow> Inl e
           | Inr buf \<Rightarrow> Inr (Stream buf None, Stream buf None))"

subsection \<open>\<open>copyHeader\<close>\<close>

text \<open>The \<open>switch\<close> on one entry of the header, and the loop over the entries.\<close>

definition copyHeaderEntry :: "string \<times> string slice \<Rightarrow> headerCopy \<Rightarrow> headerCopy" where
  "copyHeaderEntry kv hc =
     (let k = fst kv; vv = snd kv
      in if k = ''Host'' then hc\<lparr>Host := vv\<rparr>
         else if k = ''Accept'' then hc\<lparr>Accept := vv\<rparr>
         else if k = ''User-Agent'' then hc\<lparr>UserAgent := vv\<rparr>
         else if k = ''Connection'' then hc\<lparr>Connection := vv\<rparr>
         else if k = ''Content-Type'' then hc\<lparr>ContentType := vv\<rparr>
         else if k = ''Content-Length'' then hc\<lparr>ContentLength := vv\<rparr>
         else if k = ''AcceptEncoding'' then hc\<lparr>AcceptEncoding := vv\<rparr>
         else hc)"

definition emptyHeaderCopy :: headerCopy where
  "emptyHeaderCopy =
     \<lparr>Host = None, Accept = None, UserAgent = None, Connection = None,
      ContentType = None, ContentLength = None, AcceptEncoding = None\<rparr>"

definition copyHeader :: "header \<Rightarrow> headerCopy" where
  "copyHeader h = fold copyHeaderEntry h emptyHeaderCopy"

subsection \<open>\<open>cmp.Equal\<close> on request copies\<close>

text \<open>\<open>cmp.Equal\<close> compares structs field by field, strings and bytes with \<open>==\<close>, and two
  slices are equal when both are \<open>nil\<close>, or neither is and they have the same length
  and equal elements.\<close>

definition cmpEqual_slice :: "('a \<Rightarrow> 'a \<Rightarrow> bool) \<Rightarrow> 'a slice \<Rightarrow> 'a slice \<Rightarrow> bool" where
  "cmpEqual_slice eq x y =
     (case x of
        None \<Rightarrow> (case y of None \<Rightarrow> True | Some ys \<Rightarrow> False)
      | Some xs \<Rightarrow> (case y of None \<Rightarrow> False | Some ys \<Rightarrow> list_all2 eq xs ys))"

definition cmpEqual_headerCopy :: "headerCopy \<Rightarrow> headerCopy \<Rightarrow> bool" where
  "cmpEqual_headerCopy x y =
     (cmpEqual_slice (=) (Host x) (Host y) \<and>
      cmpEqual_slice (=) (Accept x) (Accept y) \<and>
      cmpEqual_slice (=) (UserAgent x) (UserAgent y) \<and>
      cmpEqual_slice (=) (Connection x) (Connection y) \<and>
      cmpEqual_slice (=) (ContentType x) (ContentType y) \<and>
      cmpEqual_slice (=) (ContentLength x) (ContentLength y) \<and>
      cmpEqual_slice (=) (AcceptEncoding x) (AcceptEncoding y))"

definition cmpEqual :: "RequestCopy \<Rightarrow> RequestCopy \<Rightarrow> bool" where
  "cmpEqual x y =
     (Method x = Method y \<and>
      TargetURL x = TargetURL y \<and>
      TargetURI x = TargetURI y \<and>
      cmpEqual_headerCopy (Header x) (Header y) \<and>
      cmpEqual_slice (=) (Body x) (Body y))"

subsection \<open>\<open>prepareRequest\<close> and \<open>sanitizeHeader\<close>\<close>

definition sanitizeHeader :: "request \<Rightarrow> request" where
  "sanitizeHeader r =
     r\<lparr>r_Header :=
         fold (\<lambda>k h. Header_Del h k)
           [''Te'', ''Trailer'', ''Upgrade'', ''Keep-Alive'', ''Connection'',
            ''Accept-Encoding'', ''Transfer-Encoding'', ''Proxy-Connection'',
            ''Proxy-Authenticate'', ''Proxy-Authorization'']
           (r_Header r)\<rparr>"

text \<open>The inner function literal of \<open>prepareRequest\<close>, for two paths without raw form.
  \<open>b[1:]\<close> is taken only when \<open>b\<close> starts with a slash, so it is the tail of \<open>b\<close>.\<close>

definition singleJoiningSlash :: "string \<Rightarrow> string \<Rightarrow> string" where
  "singleJoiningSlash a b =
     (let aslash = HasSuffix a ''/'';
          bslash = HasPrefix b ''/''
      in if aslash \<and> bslash then a @ tl b
         else if \<not> aslash \<and> \<not> bslash then a @ ''/'' @ b
         else a @ b)"

text \<open>\<open>s[1:]\<close> of a string: a panic on the empty string.\<close>

definition sliceFrom1 :: "string \<Rightarrow> error + string" where
  "sliceFrom1 s = (if s = [] then Inl (Panic ''slice bounds out of range'') else Inr (tl s))"

text \<open>The outer function literal of \<open>prepareRequest\<close>: the new \<open>Path\<close> and \<open>RawPath\<close>.\<close>

definition joinURLPath :: "runtime \<Rightarrow> url \<Rightarrow> url \<Rightarrow> error + (string \<times> string)" where
  "joinURLPath rt a b =
     (if u_RawPath a = [] \<and> u_RawPath b = []
      then Inr (singleJoiningSlash (u_Path a) (u_Path b), [])
      else
        let apath = EscapedPath rt a;
            bpath = EscapedPath rt b;
            aslash = HasSuffix apath ''/'';
            bslash = HasPrefix bpath ''/''
        in if aslash \<and> bslash
           then (case sliceFrom1 (u_Path b) of
                   Inl e \<Rightarrow> Inl e
                 | Inr p \<Rightarrow> Inr (u_Path a @ p, apath @ tl bpath))
           else if \<not> aslash \<and> \<not> bslash
           then Inr (u_Path a @ ''/'' @ u_Path b, apath @ ''/'' @ bpath)
           else Inr (u_Path a @ u_Path b, apath @ bpath))"

text \<open>The merge of the two query strings.\<close>

definition joinQuery :: "string \<Rightarrow> string \<Rightarrow> string" where
  "joinQuery targetQuery q =
     (if targetQuery = [] \<or> q = [] then targetQuery @ q else targetQuery @ ''&'' @ q)"

definition prepareRequest :: "runtime \<Rightarrow> ProxyServer \<Rightarrow> request \<Rightarrow> error + request" where
  "prepareRequest rt s r =
     (case url_Parse rt (targetURL s) of
        None \<Rightarrow> Inl (Err ''unable to parse target url'')
      | Some target \<Rightarrow>
          (let req = r\<lparr>r_Host := [], r_RequestURI := []\<rparr>;
               u1 = (r_URL req)\<lparr>u_Scheme := u_Scheme target, u_Host := u_Host target\<rparr>
           in case joinURLPath rt target u1 of
                Inl e \<Rightarrow> Inl e
              | Inr pr \<Rightarrow>
                  (let u2 = u1\<lparr>u_Path := fst pr, u_RawPath := snd pr\<rparr>;
                       u3 = u2\<lparr>u_RawQuery := joinQuery (u_RawQuery target) (u_RawQuery u2)\<rparr>
                   in Inr (sanitizeHeader (req\<lparr>r_URL := u3\<rparr>)))))"

subsection \<open>\<open>requestBackendService\<close>\<close>

text \<open>The method returns a status code and an error, or a status code after it has
  copied the backend's answer to the client, or it panics in \<open>w.WriteHeader\<close>. The
  status code that is returned is used only together with an error; without one it is
  the placeholder 418. \<open>Header().Add\<close> stores the name \<open>X-Proxy-Request-ID\<close> in its
  canonical form.\<close>

datatype backendResult =
    BackendError int string
  | BackendCopied int response
  | BackendPanic string

definition requestBackendService :: "runtime \<Rightarrow> request \<Rightarrow> string \<Rightarrow> backendResult" where
  "requestBackendService rt r reqID =
     (case client_Do rt r of
        None \<Rightarrow> BackendError 502 ''bad gateway''
      | Some resp \<Rightarrow>
          (if \<not> validStatusCode (fst resp)
           then BackendPanic (''invalid WriteHeader code '' @ Itoa (fst resp))
           else BackendCopied 418
                  \<lparr>status = fst resp,
                   w_Header = [(''X-Proxy-Request-Id'', reqID),
                               (''Content-Type'', ''application/json'')],
                   w_Body = snd resp\<rparr>))"

subsection \<open>\<open>ServeHTTP\<close>\<close>

text \<open>The outcome of one call of the handler: whether \<open>time.Sleep\<close> was called, and with
  which duration (a \<open>time.Duration\<close>, signed 64 bits, in nanoseconds), and what was
  left on the response writer.\<close>

record result =
  slept :: "64 word option"
  reply :: reply

text \<open>The loop over \<open>allowedMethods\<close>.\<close>

definition methodAllowed :: "string \<Rightarrow> bool" where
  "methodAllowed m =
     fold (\<lambda>a allowed. if a = m then True else allowed) [''POST'', ''PUT'', ''PATCH''] False"

text \<open>The rejection of requests with the phrase \<open>rejectWith\<close>: only a non-empty phrase
  is looked for.\<close>

definition contentFilter :: "runtime \<Rightarrow> ProxyServer \<Rightarrow> string \<Rightarrow> string option" where
  "contentFilter rt s cb =
     (if rejectWith s \<noteq> [] then validateRequestBody (ToLower rt) s cb else None)"

text \<open>\<open>time.Second\<close>, and \<open>time.Duration(s.requestDelay * uint(time.Second))\<close>: the
  product is taken in 64 bits.\<close>

definition time_Second :: "64 word" where
  "time_Second = 1000000000"

definition delayDuration :: "ProxyServer \<Rightarrow> 64 word" where
  "delayDuration s = requestDelay s * time_Second"

text \<open>The copy of the current request that is compared with the prior one.\<close>

definition currentRequest :: "ProxyServer \<Rightarrow> request \<Rightarrow> string \<Rightarrow> RequestCopy" where
  "currentRequest s r cb =
     \<lparr>Method = r_Method r,
      TargetURL = targetURL s,
      TargetURI = r_RequestURI r,
      Header = copyHeader (r_Header r),
      Body = Some cb\<rparr>"

text \<open>The delay of consecutive requests: the prior request is read, compared with the
  current one, the handler sleeps when they are equal, and the current request is
  stored.\<close>

definition delayConsecutive :: "ProxyServer \<Rightarrow> request \<Rightarrow> string \<Rightarrow> 64 word option \<times> ProxyServer" where
  "delayConsecutive s r cb =
     (let pr = priorRequest s;
          cr = currentRequest s r cb;
          sl = (if cmpEqual pr cr then Some (delayDuration s) else None)
      in (sl, s\<lparr>priorRequest := cr\<rparr>))"

text \<open>The rest of the handler: the request is prepared and sent to the backend.\<close>

definition forward :: "runtime \<Rightarrow> ProxyServer \<Rightarrow> request \<Rightarrow> reply" where
  "forward rt s r =
     (case prepareRequest rt s r of
        Inl (Err e) \<Rightarrow> writeError rt 500 e
      | Inl (Panic p) \<Rightarrow> Panicked p
      | Inr req \<Rightarrow>
          (case requestBackendService rt req (uuid_NewString rt) of
             BackendError code e \<Rightarrow> writeError rt code e
           | BackendCopied code w \<Rightarrow> Proxied w
           | BackendPanic p \<Rightarrow> Panicked p))"

definition ServeHTTP :: "runtime \<Rightarrow> ProxyServer \<Rightarrow> request \<Rightarrow> result \<times> ProxyServer" where
  "ServeHTTP rt s r =
     (if bodyMethodsOnly s \<and> \<not> methodAllowed (r_Method r)
      then (\<lparr>slept = None,
             reply = writeError rt 405
               (''`'' @ r_Method r @
                ''` method not allowed, this proxy server only supports `POST, PUT, PATCH` requests'')\<rparr>, s)
      else if Header_Get (r_Header r) ''Content-Type'' \<noteq> ''application/json''
      then (\<lparr>slept = None,
             reply = writeError rt 415
               ''Content-Type header must be `application/json`''\<rparr>, s)
      else
        case copyBody (r_Body r) of
          Inl (Panic p) \<Rightarrow> (\<lparr>slept = None, reply = Panicked p\<rparr>, s)
        | Inl (Err e) \<Rightarrow>
            (\<lparr>slept = None, reply = writeError rt 400 ''invalid request body''\<rparr>, s)
        | Inr rr \<Rightarrow>
            (let r' = r\<lparr>r_Body := fst rr\<rparr>
             in case ReadAll (snd rr) of
                  Inl (Panic p) \<Rightarrow> (\<lparr>slept = None, reply = Panicked p\<rparr>, s)
                | Inl (Err e) \<Rightarrow>
                    (\<lparr>slept = None,
                      reply = writeError rt 400 ''invalid request body''\<rparr>, s)
                | Inr cb \<Rightarrow>
                    (case contentFilter rt s cb of
                       Some e \<Rightarrow> (\<lparr>slept = None, reply = writeError rt 401 e\<rparr>, s)
                     | None \<Rightarrow>
                         (let d = delayConsecutive s r' cb
                          in (\<lparr>slept = fst d, reply = forward rt (snd d) r'\<rparr>, snd d)))))"

section \<open>Definitions taken from the specification, and example data\<close>

text \<open>The phrase \<open>v\<close> occurs in \<open>b\<close> in one of its four delimited forms: between two
  spaces, between two double quotes, after a space and before a double quote, or after
  a double quote and before a space.\<close>

definition occursDelimited :: "string \<Rightarrow> string \<Rightarrow> bool" where
  \<open>occursDelimited v b =
     (sublist ('' '' @ v @ '' '') b \<or> sublist (''"'' @ v @ ''"'') b \<or>
      sublist ('' '' @ v @ ''"'') b \<or> sublist (''"'' @ v @ '' '') b)\<close>

text \<open>A string after the lower-casing that the case-insensitive mode asks for.\<close>

definition lowered :: "runtime \<Rightarrow> ProxyServer \<Rightarrow> string \<Rightarrow> string" where
  "lowered rt s x = (if rejectInsensitive s then ToLower rt x else x)"

text \<open>\<open>RequestCopy{}\<close>, the prior request of a new server, and the configuration of the
  end-to-end tests.\<close>

definition emptyRequestCopy :: RequestCopy where
  "emptyRequestCopy =
     \<lparr>Method = [], TargetURL = [], TargetURI = [], Header = emptyHeaderCopy, Body = None\<rparr>"

definition exampleServer :: ProxyServer where
  "exampleServer =
     \<lparr>debug = True, targetURL = ''http://jsonplaceholder.typicode.com/'', requestDelay = 2,
      bodyMethodsOnly = True, rejectWith = ''bad_message'', rejectExact = True,
      rejectInsensitive = False, priorRequest = emptyRequestCopy\<rparr>"

text \<open>A runtime for the evaluation of examples. It agrees with the library on the
  inputs of the examples: ASCII strings for \<open>ToLower\<close>; three target URLs for
  \<open>url.Parse\<close> (in the last one the final slash of the path is percent-encoded, so
  that the URL keeps a raw path); for \<open>EscapedPath\<close>, URLs whose raw path, when there
  is one, is a valid encoding of the path, and whose path otherwise needs no escaping;
  messages without characters to escape for \<open>json.Marshal\<close>. The backend answers every
  request with status 200.\<close>

definition exampleRuntime :: runtime where
  \<open>exampleRuntime =
     \<lparr>ToLower = asciiToLower,
      url_Parse = map_of
        [(''http://jsonplaceholder.typicode.com/'',
            \<lparr>u_Scheme = ''http'', u_Host = ''jsonplaceholder.typicode.com'',
             u_Path = ''/'', u_RawPath = [], u_RawQuery = []\<rparr>),
         (''http://x/base/?key=1'',
            \<lparr>u_Scheme = ''http'', u_Host = ''x'',
             u_Path = ''/base/'', u_RawPath = [], u_RawQuery = ''key=1''\<rparr>),
         (''http://x/base%2F'',
            \<lparr>u_Scheme = ''http'', u_Host = ''x'',
             u_Path = ''/base/'', u_RawPath = ''/base%2F'', u_RawQuery = []\<rparr>)],
      EscapedPath = (\<lambda>u. if u_RawPath u \<noteq> [] then u_RawPath u else u_Path u),
      json_Marshal = (\<lambda>e. Some (''{"code":"'' @ Code e @ ''","msg":"'' @ Msg e @ ''"}'')),
      client_Do = (\<lambda>r. Some (200, ''{}'')),
      uuid_NewString = ''6ad80a7c-c132-4417-8323-fdfcaf7365e8''\<rparr>\<close>

text \<open>The stages of the handler before the comparison with the prior request: the
  request is admitted when the server does not insist on methods with a body, or the
  method is one of the three; its content type is accepted when the \<open>Content-Type\<close>
  header reads \<open>application/json\<close>; its body is captured by \<open>copyBody\<close> and
  \<open>io.ReadAll\<close> of the second copy.\<close>

definition admitted :: "ProxyServer \<Rightarrow> request \<Rightarrow> bool" where
  "admitted s r = (\<not> bodyMethodsOnly s \<or> r_Method r \<in> {''POST'', ''PUT'', ''PATCH''})"

definition contentTypeOK :: "request \<Rightarrow> bool" where
  "contentTypeOK r = (Header_Get (r_Header r) ''Content-Type'' = ''application/json'')"

definition capturedBody :: "readcloser \<Rightarrow> error + string" where
  "capturedBody b = (case copyBody b of Inl e \<Rightarrow> Inl e | Inr rr \<Rightarrow> ReadAll (snd rr))"

text \<open>The status code of the response, if one was written.\<close>

definition replyStatus :: "reply \<Rightarrow> int option" where
  "replyStatus y =
     (case y of ErrorWritten w \<Rightarrow> Some (status w) | Proxied w \<Rightarrow> Some (status w)
      | Panicked p \<Rightarrow> None)"

text \<open>Example requests: a \<open>POST\<close> with a JSON body, the same with the forbidden phrase in
  the body, a \<open>GET\<close> with another content type; and the example server after it has
  handled the first of them.\<close>

definition examplePost :: request where
  \<open>examplePost =
     \<lparr>r_Method = ''POST'', r_RequestURI = ''/posts'', r_Host = ''localhost:8080'',
      r_Header = [(''Content-Type'', Some [''application/json'']),
                  (''Accept-Encoding'', Some [''gzip'']),
                  (''User-Agent'', Some [''Go-http-client/1.1'']),
                  (''Content-Length'', Some [''24''])],
      r_Body = Stream ''{"body": "good_message"}'' None,
      r_URL = \<lparr>u_Scheme = [], u_Host = [], u_Path = ''/posts'', u_RawPath = [],
               u_RawQuery = []\<rparr>\<rparr>\<close>

definition exampleGet :: request where
  \<open>exampleGet =
     \<lparr>r_Method = ''GET'', r_RequestURI = ''/posts/1'', r_Host = ''localhost:8080'',
      r_Header = [(''Content-Type'', Some [''text/html''])],
      r_Body = NoBody,
      r_URL = \<lparr>u_Scheme = [], u_Host = [], u_Path = ''/posts/1'', u_RawPath = [],
               u_RawQuery = []\<rparr>\<rparr>\<close>

definition exampleBadPost :: request where
  \<open>exampleBadPost = examplePost\<lparr>r_Body := Stream ''{"body": "bad_message"}'' None\<rparr>\<close>

definition afterExamplePost :: ProxyServer where
  \<open>afterExamplePost =
     exampleServer\<lparr>priorRequest :=
       currentRequest exampleServer examplePost ''{"body": "good_message"}''\<rparr>\<close>

text \<open>The same server with a delay of 9223372037 seconds, the least number of seconds
  whose count of nanoseconds is not a \<open>time.Duration\<close>.\<close>

definition exampleLongDelay :: ProxyServer where
  "exampleLongDelay = afterExamplePost\<lparr>requestDelay := 9223372037\<rparr>"

text \<open>The join of a base path and an inbound path with one separating slash: if the
  base ends in a slash and the inbound path starts with one, one of them is dropped;
  if neither does, one is inserted; otherwise the two are concatenated.\<close>

definition specJoin :: "string \<Rightarrow> string \<Rightarrow> string" where
  "specJoin base inbound =
     (if suffix ''/'' base \<and> prefix ''/'' inbound then butlast base @ inbound
      else if \<not> suffix ''/'' base \<and> \<not> prefix ''/'' inbound then base @ ''/'' @ inbound
      else base @ inbound)"

text \<open>The same join with the two slash tests given from outside.\<close>

definition joinBy :: "bool \<Rightarrow> bool \<Rightarrow> string \<Rightarrow> string \<Rightarrow> string" where
  "joinBy baseSlash inboundSlash base inbound =
     (if baseSlash \<and> inboundSlash then base @ tl inbound
      else if \<not> baseSlash \<and> \<not> inboundSlash then base @ ''/'' @ inbound
      else base @ inbound)"

text \<open>The merged query: the non-empty one of the two when either is empty, otherwise
  the target's query, \<open>&\<close>, and the inbound query.\<close>

definition specQuery :: "string \<Rightarrow> string \<Rightarrow> string" where
  "specQuery targetQuery q =
     (if targetQuery = [] then q else if q = [] then targetQuery else targetQuery @ ''&'' @ q)"

text \<open>The URL of the inbound request at the point where the paths are joined: scheme
  and host are already those of the target.\<close>

definition inboundURL :: "url \<Rightarrow> request \<Rightarrow> url" where
  "inboundURL target r = (r_URL r)\<lparr>u_Scheme := u_Scheme target, u_Host := u_Host target\<rparr>"

text \<open>The URL of an inbound request for \<open>/dir?x=2\<close>.\<close>

definition exampleDirURL :: url where
  "exampleDirURL =
     \<lparr>u_Scheme = [], u_Host = [], u_Path = ''/dir'', u_RawPath = [], u_RawQuery = ''x=2''\<rparr>"

subsection \<open>JSON texts\<close>

text \<open>A recogniser of JSON texts (RFC 8259): the text is cut into tokens, character by
  character, and the tokens are checked against the grammar of values, objects and
  arrays with a stack of the open containers.\<close>

datatype token = LBrace | RBrace | LBracket | RBracket | Colon | Comma
  | TString string | TNumber | TLiteral

datatype numstate = NMinus | NZero | NInt | NDot | NFrac | NE | NESign | NExp

datatype numstep = NumGoes numstate | NumEnds | NumFails

datatype lexmode = LexStart | LexString string | LexEscape string | LexHex nat string
  | LexNumber numstate | LexLiteral string

definition isDigit :: "char \<Rightarrow> bool" where
  "isDigit c = (c \<in> set ''0123456789'')"

definition isHexDigit :: "char \<Rightarrow> bool" where
  "isHexDigit c = (c \<in> set ''0123456789abcdefABCDEF'')"

definition isWhitespace :: "char \<Rightarrow> bool" where
  "isWhitespace c = (c \<in> set [CHR '' '', CHR 0x09, CHR 0x0A, CHR 0x0D])"

definition isExponentMark :: "char \<Rightarrow> bool" where
  "isExponentMark c = (c = CHR ''e'' \<or> c = CHR ''E'')"

text \<open>The grammar of numbers, one character at a time: the number goes on, ends before
  the character, or is malformed.\<close>

fun numberStep :: "numstate \<Rightarrow> char \<Rightarrow> numstep" where
  "numberStep NMinus c =
     (if c = CHR ''0'' then NumGoes NZero else if isDigit c then NumGoes NInt else NumFails)"
| "numberStep NZero c =
     (if c = CHR ''.'' then NumGoes NDot else if isExponentMark c then NumGoes NE else NumEnds)"
| "numberStep NInt c =
     (if isDigit c then NumGoes NInt else if c = CHR ''.'' then NumGoes NDot
      else if isExponentMark c then NumGoes NE else NumEnds)"
| "numberStep NDot c = (if isDigit c then NumGoes NFrac else NumFails)"
| "numberStep NFrac c =
     (if isDigit c then NumGoes NFrac else if isExponentMark c then NumGoes NE else NumEnds)"
| "numberStep NE c =
     (if c = CHR ''+'' \<or> c = CHR ''-'' then NumGoes NESign
      else if isDigit c then NumGoes NExp else NumFails)"
| "numberStep NESign c = (if isDigit c then NumGoes NExp else NumFails)"
| "numberStep NExp c = (if isDigit c then NumGoes NExp else NumEnds)"

definition numberComplete :: "numstate \<Rightarrow> bool" where
  "numberComplete n = (n = NZero \<or> n = NInt \<or> n = NFrac \<or> n = NExp)"

text \<open>One character between tokens, and one character in any mode of the tokeniser.\<close>

definition lexStartChar :: "char \<Rightarrow> (token list \<times> lexmode) option" where
  \<open>lexStartChar c =
     (if isWhitespace c then Some ([], LexStart)
      else if c = CHR ''{'' then Some ([LBrace], LexStart)
      else if c = CHR ''}'' then Some ([RBrace], LexStart)
      else if c = CHR ''['' then Some ([LBracket], LexStart)
      else if c = CHR '']'' then Some ([RBracket], LexStart)
      else if c = CHR '':'' then Some ([Colon], LexStart)
      else if c = CHR '','' then Some ([Comma], LexStart)
      else if c = CHR 0x22 then Some ([], LexString [])
      else if c = CHR ''-'' then Some ([], LexNumber NMinus)
      else if c = CHR ''0'' then Some ([], LexNumber NZero)
      else if isDigit c then Some ([], LexNumber NInt)
      else if c = CHR ''t'' then Some ([], LexLiteral ''rue'')
      else if c = CHR ''f'' then Some ([], LexLiteral ''alse'')
      else if c = CHR ''n'' then Some ([], LexLiteral ''ull'')
      else None)\<close>

definition lexChar :: "lexmode \<Rightarrow> char \<Rightarrow> (token list \<times> lexmode) option" where
  \<open>lexChar m c =
     (case m of
        LexStart \<Rightarrow> lexStartChar c
      | LexString acc \<Rightarrow>
          (if c = CHR 0x22 then Some ([TString (rev acc)], LexStart)
           else if c = CHR 0x5C then Some ([], LexEscape acc)
           else if (of_char c :: nat) < 32 then None
           else Some ([], LexString (c # acc)))
      | LexEscape acc \<Rightarrow>
          (if c = CHR ''u'' then Some ([], LexHex 4 (c # CHR 0x5C # acc))
           else if c \<in> set [CHR 0x22, CHR 0x5C, CHR ''/'', CHR ''b'', CHR ''f'', CHR ''n'',
                             CHR ''r'', CHR ''t'']
           then Some ([], LexString (c # CHR 0x5C # acc))
           else None)
      | LexHex n acc \<Rightarrow>
          (if isHexDigit c
           then Some ([], if n \<le> 1 then LexString (c # acc) else LexHex (n - 1) (c # acc))
           else None)
      | LexNumber n \<Rightarrow>
          (case numberStep n c of
             NumGoes n' \<Rightarrow> Some ([], LexNumber n')
           | NumFails \<Rightarrow> None
           | NumEnds \<Rightarrow>
               (case lexStartChar c of
                  None \<Rightarrow> None
                | Some (ts, m') \<Rightarrow> Some (TNumber # ts, m')))
      | LexLiteral expected \<Rightarrow>
          (case expected of
             [] \<Rightarrow> None
           | x # xs \<Rightarrow>
               (if c \<noteq> x then None
                else if xs = [] then Some ([TLiteral], LexStart)
                else Some ([], LexLiteral xs))))\<close>

fun lexJSON :: "lexmode \<Rightarrow> string \<Rightarrow> token list option" where
  "lexJSON m [] =
     (case m of
        LexStart \<Rightarrow> Some []
      | LexNumber n \<Rightarrow> (if numberComplete n then Some [TNumber] else None)
      | _ \<Rightarrow> None)"
| "lexJSON m (c # cs) =
     (case lexChar m c of
        None \<Rightarrow> None
      | Some (ts, m') \<Rightarrow> map_option ((@) ts) (lexJSON m' cs))"

text \<open>The grammar over tokens: what is expected next, inside which containers.\<close>

datatype container = InObject | InArray

datatype expect = ExpectValue | ExpectValueOrClose | ExpectKey | ExpectKeyOrClose
  | ExpectColon | AfterValue

fun parseJSON :: "expect \<Rightarrow> container list \<Rightarrow> token list \<Rightarrow> bool" where
  "parseJSON e stack [] = (e = AfterValue \<and> stack = [])"
| "parseJSON e stack (t # ts) =
     (if e = ExpectValue \<or> e = ExpectValueOrClose then
        (case t of
           TString x \<Rightarrow> parseJSON AfterValue stack ts
         | TNumber \<Rightarrow> parseJSON AfterValue stack ts
         | TLiteral \<Rightarrow> parseJSON AfterValue stack ts
         | LBrace \<Rightarrow> parseJSON ExpectKeyOrClose (InObject # stack) ts
         | LBracket \<Rightarrow> parseJSON ExpectValueOrClose (InArray # stack) ts
         | RBracket \<Rightarrow>
             (case stack of
                InArray # rest \<Rightarrow> e = ExpectValueOrClose \<and> parseJSON AfterValue rest ts
              | _ \<Rightarrow> False)
         | _ \<Rightarrow> False)
      else if e = ExpectKey \<or> e = ExpectKeyOrClose then
        (case t of
           TString x \<Rightarrow> parseJSON ExpectColon stack ts
         | RBrace \<Rightarrow>
             (case stack of
                InObject # rest \<Rightarrow> e = ExpectKeyOrClose \<and> parseJSON AfterValue rest ts
              | _ \<Rightarrow> False)
         | _ \<Rightarrow> False)
      else if e = ExpectColon then
        (case t of Colon \<Rightarrow> parseJSON ExpectValue stack ts | _ \<Rightarrow> False)
      else
        (case stack of
           [] \<Rightarrow> False
         | InObject # rest \<Rightarrow>
             (case t of
                Comma \<Rightarrow> parseJSON ExpectKey stack ts
              | RBrace \<Rightarrow> parseJSON AfterValue rest ts
              | _ \<Rightarrow> False)
         | InArray # rest \<Rightarrow>
             (case t of
                Comma \<Rightarrow> parseJSON ExpectValue stack ts
              | RBracket \<Rightarrow> parseJSON AfterValue rest ts
              | _ \<Rightarrow> False)))"

text \<open>A JSON text, and a JSON text that is an object.\<close>

definition isJSON :: "string \<Rightarrow> bool" where
  "isJSON s = (case lexJSON LexStart s of None \<Rightarrow> False | Some ts \<Rightarrow> parseJSON ExpectValue [] ts)"

definition isJSONObject :: "string \<Rightarrow> bool" where
  "isJSONObject s =
     (case lexJSON LexStart s of
        Some (LBrace # ts) \<Rightarrow> parseJSON ExpectValue [] (LBrace # ts)
      | _ \<Rightarrow> False)"

text \<open>A character that stands for itself inside a JSON string, and the hand-built
  body of \<open>writeError\<close> for a code string.\<close>

definition plainChar :: "char \<Rightarrow> bool" where
  "plainChar c = (32 \<le> (of_char c :: nat) \<and> c \<noteq> CHR 0x22 \<and> c \<noteq> CHR 0x5C)"

definition fallbackBody :: "string \<Rightarrow> string" where
  \<open>fallbackBody codeString =
     ''{"code": "'' @ codeString @
     ''""msg": "There was a response that could not be serialized into JSON"}''\<close>

text \<open>\<open>h[k]\<close> for a header: the value slice under the name, \<open>nil\<close> when there is
  none.\<close>

definition headerValues :: "header \<Rightarrow> string \<Rightarrow> string slice" where
  "headerValues h k = (case map_of h k of None \<Rightarrow> None | Some vv \<Rightarrow> vv)"

subsection \<open>Handlers that run at the same time\<close>

text \<open>\<open>net/http\<close> calls \<open>ServeHTTP\<close> for every connection in a goroutine of its own, and
  all calls share the one \<open>ProxyServer\<close>, which holds no lock. The part of \<open>ServeHTTP\<close>
  that delays consecutive requests is taken statement by statement: the prior request
  is read into \<open>pr\<close> and the current copy \<open>cr\<close> is built; \<open>pr\<close> and \<open>cr\<close> are compared,
  with the sleep when they are equal; \<open>cr\<close> is assigned to \<open>s.priorRequest\<close>. A handler
  is at one of these points, holding its local variables, or has made the assignment.\<close>

datatype handler =
    Ready request string
  | HasRead RequestCopy RequestCopy
  | HasCompared RequestCopy "64 word option"
  | Replaced "64 word option"

fun stepHandler :: "ProxyServer \<Rightarrow> handler \<Rightarrow> (ProxyServer \<times> handler) option" where
  "stepHandler s (Ready r cb) = Some (s, HasRead (priorRequest s) (currentRequest s r cb))"
| "stepHandler s (HasRead pr cr) =
     Some (s, HasCompared cr (if cmpEqual pr cr then Some (delayDuration s) else None))"
| "stepHandler s (HasCompared cr sl) = Some (s\<lparr>priorRequest := cr\<rparr>, Replaced sl)"
| "stepHandler s (Replaced sl) = None"

text \<open>A schedule lists which handler takes the next step; the steps act on the shared
  server. A schedule that picks a handler with no step left is not a run.\<close>

fun runHandlers :: "nat list \<Rightarrow> ProxyServer \<times> handler list \<Rightarrow> (ProxyServer \<times> handler list) option" where
  "runHandlers [] c = Some c"
| "runHandlers (i # sched) c =
     (if i < length (snd c)
      then (case stepHandler (fst c) (snd c ! i) of
              None \<Rightarrow> None
            | Some sh \<Rightarrow> runHandlers sched (fst sh, (snd c)[i := snd sh]))
      else None)"

section \<open>Verified properties\<close>

subsection \<open>Strings\<close>

lemma HasPrefix_iff: "HasPrefix s p \<longleftrightarrow> prefix p s"
  by (induction s p rule: HasPrefix.induct) auto

lemma HasSuffix_iff: "HasSuffix s p \<longleftrightarrow> suffix p s"
  by (simp add: HasSuffix_def HasPrefix_iff suffix_to_prefix)

lemma Contains_iff: "Contains s sub \<longleftrightarrow> sublist sub s"
  by (induction s) (simp_all add: HasPrefix_iff sublist_Cons_right)

subsection \<open>The content filter\<close>

lemma findInvalid_iff: "findInvalid b v cs = None \<longleftrightarrow> (\<forall>c \<in> set cs. \<not> Contains b c)"
  by (induction cs) simp_all

lemma validate_exact:
  "rejectExact s \<Longrightarrow>
   (validateRequestBody lower s b = None) =
     (\<not> occursDelimited (if rejectInsensitive s then lower (rejectWith s) else rejectWith s)
                     (if rejectInsensitive s then lower b else b))"
  by (simp add: validateRequestBody_def Let_def findInvalid_iff Contains_iff occursDelimited_def)

lemma validate_contains:
  "\<not> rejectExact s \<Longrightarrow>
   (validateRequestBody lower s b = None) =
     (\<not> sublist (if rejectInsensitive s then lower (rejectWith s) else rejectWith s)
                     (if rejectInsensitive s then lower b else b))"
  by (simp add: validateRequestBody_def Let_def findInvalid_iff Contains_iff)

lemma occursDelimited_sublist: "occursDelimited v b \<Longrightarrow> sublist v b"
  unfolding occursDelimited_def
  by (meson sublist_appendI sublist_order.order_trans)

lemma bad_messages_not_delimited:
  \<open>\<not> occursDelimited ''bad_message'' ''{"body": "bad_messages"}''\<close>
  unfolding occursDelimited_def by code_simp

text \<open>
  C1. In exact mode and with a non-empty phrase, the content filter rejects a body if
  and only if the body contains the phrase in one of its four delimited forms (space
  or double quote on either side), both lower-cased when the case-insensitive mode is
  set. In particular the body \<open>{"body": "bad_messages"}\<close> is not rejected for the phrase
  \<open>bad_message\<close>, whatever the case mode (the lower-casing leaves both strings as they
  are).
\<close>

theorem exact_filter_rejects_iff_delimited:
  assumes "rejectExact s" and "rejectWith s \<noteq> []"
  shows \<open>((contentFilter rt s b \<noteq> None) =
            occursDelimited (lowered rt s (rejectWith s)) (lowered rt s b)) \<and>
         (rejectWith s = ''bad_message'' \<and>
          ToLower rt ''bad_message'' = ''bad_message'' \<and>
          ToLower rt ''{"body": "bad_messages"}'' = ''{"body": "bad_messages"}''
          \<longrightarrow> contentFilter rt s ''{"body": "bad_messages"}'' = None)\<close>
proof -
  have n: "(contentFilter rt s x = None) =
             (\<not> occursDelimited (lowered rt s (rejectWith s)) (lowered rt s x))" for x
    using assms by (simp add: contentFilter_def validate_exact lowered_def)
  have iff: "(contentFilter rt s x \<noteq> None) =
             occursDelimited (lowered rt s (rejectWith s)) (lowered rt s x)" for x
    by (simp only: n [of x] not_not)
  show ?thesis
  proof (intro conjI impI)
    show "(contentFilter rt s b \<noteq> None) =
            occursDelimited (lowered rt s (rejectWith s)) (lowered rt s b)"
      by (rule iff)
  next
    assume a: \<open>rejectWith s = ''bad_message'' \<and>
          ToLower rt ''bad_message'' = ''bad_message'' \<and>
          ToLower rt ''{"body": "bad_messages"}'' = ''{"body": "bad_messages"}''\<close>
    have \<open>lowered rt s (rejectWith s) = ''bad_message''\<close>
      using a by (simp add: lowered_def)
    moreover have \<open>lowered rt s ''{"body": "bad_messages"}'' = ''{"body": "bad_messages"}''\<close>
      using a by (simp add: lowered_def)
    ultimately have \<open>\<not> (contentFilter rt s ''{"body": "bad_messages"}'' \<noteq> None)\<close>
      using bad_messages_not_delimited by (simp only: iff not_False_eq_True)
    then show \<open>contentFilter rt s ''{"body": "bad_messages"}'' = None\<close> by simp
  qed
qed

theorem exact_filter_rejects_iff_delimited_witness:
  \<open>rejectExact (exampleServer\<lparr>rejectInsensitive := True\<rparr>) \<and>
   rejectWith (exampleServer\<lparr>rejectInsensitive := True\<rparr>) \<noteq> [] \<and>
   contentFilter exampleRuntime (exampleServer\<lparr>rejectInsensitive := True\<rparr>)
     ''{"body": "BAD_MESSAGE"}'' \<noteq> None \<and>
   contentFilter exampleRuntime exampleServer ''{"body": "BAD_MESSAGE"}'' = None \<and>
   contentFilter exampleRuntime exampleServer ''{"body": "bad_message"}'' \<noteq> None \<and>
   contentFilter exampleRuntime exampleServer ''{"body": "bad_messages"}'' = None\<close>
proof -
  let ?si = "exampleServer\<lparr>rejectInsensitive := True\<rparr>"
  have e1: "rejectExact ?si" and e2: "rejectWith ?si \<noteq> []"
    and e3: "rejectExact exampleServer" and e4: "rejectWith exampleServer \<noteq> []"
    by (simp_all add: exampleServer_def)
  have l1: \<open>lowered exampleRuntime ?si (rejectWith ?si) = ''bad_message''\<close>
    unfolding lowered_def exampleServer_def exampleRuntime_def
    by (simp, code_simp)
  have l2: \<open>lowered exampleRuntime ?si ''{"body": "BAD_MESSAGE"}'' = ''{"body": "bad_message"}''\<close>
    unfolding lowered_def exampleServer_def exampleRuntime_def
    by (simp, code_simp)
  have l3: \<open>lowered exampleRuntime exampleServer x = x\<close> for x
    by (simp add: lowered_def exampleServer_def)
  have l4: \<open>rejectWith exampleServer = ''bad_message''\<close>
    by (simp add: exampleServer_def)
  have d1: \<open>occursDelimited ''bad_message'' ''{"body": "bad_message"}''\<close>
    unfolding occursDelimited_def by code_simp
  have d2: \<open>\<not> occursDelimited ''bad_message'' ''{"body": "BAD_MESSAGE"}''\<close>
    unfolding occursDelimited_def by code_simp
  have d3: \<open>\<not> occursDelimited ''bad_message'' ''{"body": "bad_messages"}''\<close>
    unfolding occursDelimited_def by code_simp
  from exact_filter_rejects_iff_delimited [OF e1 e2, of exampleRuntime \<open>''{"body": "BAD_MESSAGE"}''\<close>]
  have r1: \<open>contentFilter exampleRuntime ?si ''{"body": "BAD_MESSAGE"}'' \<noteq> None\<close>
    by (simp only: l1 l2 d1)
  from exact_filter_rejects_iff_delimited [OF e3 e4, of exampleRuntime \<open>''{"body": "BAD_MESSAGE"}''\<close>]
  have r2: \<open>contentFilter exampleRuntime exampleServer ''{"body": "BAD_MESSAGE"}'' = None\<close>
    using d2 by (simp add: l3 l4)
  from exact_filter_rejects_iff_delimited [OF e3 e4, of exampleRuntime \<open>''{"body": "bad_message"}''\<close>]
  have r3: \<open>contentFilter exampleRuntime exampleServer ''{"body": "bad_message"}'' \<noteq> None\<close>
    using d1 by (simp add: l3 l4)
  from exact_filter_rejects_iff_delimited [OF e3 e4, of exampleRuntime \<open>''{"body": "bad_messages"}''\<close>]
  have r4: \<open>contentFilter exampleRuntime exampleServer ''{"body": "bad_messages"}'' = None\<close>
    using d3 by (simp add: l3 l4)
  from e1 e2 r1 r2 r3 r4 show ?thesis by (intro conjI)
qed

subsection \<open>The stages of the handler\<close>

lemma methodAllowed_iff: "methodAllowed m \<longleftrightarrow> m \<in> {''POST'', ''PUT'', ''PATCH''}"
  by (auto simp add: methodAllowed_def)

lemma admitted_iff: "admitted s r \<longleftrightarrow> \<not> (bodyMethodsOnly s \<and> \<not> methodAllowed (r_Method r))"
  by (simp add: admitted_def methodAllowed_iff)

lemma status_writeError: "writeError rt code msg = ErrorWritten w \<Longrightarrow> status w = code"
  by (auto simp add: writeError_def Let_def split: if_splits)

lemma replyStatus_writeError:
  "validStatusCode code \<Longrightarrow> replyStatus (writeError rt code msg) = Some code"
  by (simp add: writeError_def Let_def replyStatus_def)

lemma forward_status:
  "forward rt s r = ErrorWritten w \<Longrightarrow> status w = 500 \<or> status w = 502"
  by (auto simp add: forward_def requestBackendService_def
      split: sum.splits error.splits option.splits backendResult.splits if_splits
      dest: status_writeError)

lemma cmpEqual_slice_iff: "cmpEqual_slice (=) x y \<longleftrightarrow> x = y"
  by (simp add: cmpEqual_slice_def list_all2_eq [symmetric] split: option.splits)

lemma cmpEqual_headerCopy_iff: "cmpEqual_headerCopy x y \<longleftrightarrow> x = y"
  by (cases x, cases y) (auto simp add: cmpEqual_headerCopy_def cmpEqual_slice_iff)

lemma cmpEqual_iff: "cmpEqual x y \<longleftrightarrow> x = y"
  by (cases x, cases y) (auto simp add: cmpEqual_def cmpEqual_slice_iff cmpEqual_headerCopy_iff)

lemma currentRequest_body [simp]: "currentRequest s (r\<lparr>r_Body := b\<rparr>) cb = currentRequest s r cb"
  by (simp add: currentRequest_def)

lemma delayConsecutive_eq:
  "delayConsecutive s r cb =
     (if priorRequest s = currentRequest s r cb then Some (delayDuration s) else None,
      s\<lparr>priorRequest := currentRequest s r cb\<rparr>)"
  by (simp add: delayConsecutive_def Let_def cmpEqual_iff)

lemma copyBody_no_panic: "copyBody b \<noteq> Inl (Panic p)"
  by (cases b rule: ReadAll.cases) (simp_all add: copyBody_def)

lemma ServeHTTP_not_admitted:
  "\<not> admitted s r \<Longrightarrow>
   ServeHTTP rt s r =
     (\<lparr>slept = None,
       reply = writeError rt 405
         (''`'' @ r_Method r @
          ''` method not allowed, this proxy server only supports `POST, PUT, PATCH` requests'')\<rparr>, s)"
  by (simp add: ServeHTTP_def admitted_iff)

lemma ServeHTTP_content_type:
  "admitted s r \<Longrightarrow> \<not> contentTypeOK r \<Longrightarrow>
   ServeHTTP rt s r =
     (\<lparr>slept = None,
       reply = writeError rt 415 ''Content-Type header must be `application/json`''\<rparr>, s)"
  using admitted_iff [of s r] by (auto simp add: ServeHTTP_def contentTypeOK_def)

lemma ServeHTTP_body_error:
  "admitted s r \<Longrightarrow> contentTypeOK r \<Longrightarrow> capturedBody (r_Body r) = Inl (Err e) \<Longrightarrow>
   ServeHTTP rt s r =
     (\<lparr>slept = None, reply = writeError rt 400 ''invalid request body''\<rparr>, s)"
  using admitted_iff [of s r]
  by (auto simp add: ServeHTTP_def contentTypeOK_def capturedBody_def Let_def
      split: sum.splits error.splits)

lemma ServeHTTP_body_panic:
  "admitted s r \<Longrightarrow> contentTypeOK r \<Longrightarrow> capturedBody (r_Body r) = Inl (Panic p) \<Longrightarrow>
   ServeHTTP rt s r = (\<lparr>slept = None, reply = Panicked p\<rparr>, s)"
  using admitted_iff [of s r]
  by (auto simp add: ServeHTTP_def contentTypeOK_def capturedBody_def Let_def
      split: sum.splits error.splits)

lemma ServeHTTP_rejected:
  "admitted s r \<Longrightarrow> contentTypeOK r \<Longrightarrow> capturedBody (r_Body r) = Inr cb \<Longrightarrow>
   contentFilter rt s cb = Some e \<Longrightarrow>
   ServeHTTP rt s r = (\<lparr>slept = None, reply = writeError rt 401 e\<rparr>, s)"
  using admitted_iff [of s r]
  by (auto simp add: ServeHTTP_def contentTypeOK_def capturedBody_def Let_def
      split: sum.splits error.splits)

lemma ServeHTTP_passed:
  "admitted s r \<Longrightarrow> contentTypeOK r \<Longrightarrow> capturedBody (r_Body r) = Inr cb \<Longrightarrow>
   contentFilter rt s cb = None \<Longrightarrow>
   \<exists>r'. ServeHTTP rt s r =
     (\<lparr>slept = (if priorRequest s = currentRequest s r cb then Some (delayDuration s) else None),
       reply = forward rt (s\<lparr>priorRequest := currentRequest s r cb\<rparr>) r'\<rparr>,
      s\<lparr>priorRequest := currentRequest s r cb\<rparr>)"
  using admitted_iff [of s r]
  by (auto simp add: ServeHTTP_def contentTypeOK_def capturedBody_def Let_def delayConsecutive_eq
      split: sum.splits error.splits)

subsection \<open>Exact and contains mode\<close>

text \<open>
  C10. If \<open>validateRequestBody\<close> rejects a body in exact mode, it rejects the same body,
  with the same phrase and the same case mode, in contains mode. (This holds for every
  phrase, the empty one too.)
\<close>

theorem exact_rejection_implies_contains_rejection:
  assumes "validateRequestBody lower (s\<lparr>rejectExact := True\<rparr>) b \<noteq> None"
  shows "validateRequestBody lower (s\<lparr>rejectExact := False\<rparr>) b \<noteq> None"
proof -
  let ?v = "if rejectInsensitive s then lower (rejectWith s) else rejectWith s"
  let ?b = "if rejectInsensitive s then lower b else b"
  have "occursDelimited ?v ?b"
    using assms validate_exact [of "s\<lparr>rejectExact := True\<rparr>" lower b]
    by (auto split: if_splits)
  then have "sublist ?v ?b"
    by (rule occursDelimited_sublist)
  then show ?thesis
    using validate_contains [of "s\<lparr>rejectExact := False\<rparr>" lower b]
    by (auto split: if_splits)
qed

theorem exact_rejection_implies_contains_rejection_witness:
  \<open>validateRequestBody asciiToLower (exampleServer\<lparr>rejectExact := True\<rparr>)
      ''{"body": "bad_message"}'' \<noteq> None \<and>
   validateRequestBody asciiToLower (exampleServer\<lparr>rejectExact := False\<rparr>)
      ''{"body": "bad_message"}'' \<noteq> None\<close>
proof -
  have d: \<open>occursDelimited ''bad_message'' ''{"body": "bad_message"}''\<close>
    unfolding occursDelimited_def by code_simp
  have h: \<open>validateRequestBody asciiToLower (exampleServer\<lparr>rejectExact := True\<rparr>)
      ''{"body": "bad_message"}'' \<noteq> None\<close>
    using d validate_exact [of "exampleServer\<lparr>rejectExact := True\<rparr>" asciiToLower
        \<open>''{"body": "bad_message"}''\<close>]
    by (simp add: exampleServer_def)
  from h exact_rejection_implies_contains_rejection [OF h] show ?thesis by (intro conjI)
qed

subsection \<open>The empty phrase\<close>

lemma exampleBadPost_body:
  \<open>capturedBody (r_Body exampleBadPost) = Inr ''{"body": "bad_message"}''\<close>
  by (simp add: exampleBadPost_def capturedBody_def copyBody_def)

lemma exampleBadPost_admitted: "admitted (exampleServer\<lparr>rejectWith := p\<rparr>) exampleBadPost"
  by (simp add: admitted_def exampleBadPost_def examplePost_def)

lemma exampleBadPost_contentTypeOK: "contentTypeOK exampleBadPost"
  by (simp add: contentTypeOK_def exampleBadPost_def examplePost_def Header_Get_def)

text \<open>
  C7. With the empty phrase configured, the content filter rejects no body, in exact
  and in contains mode; a request that reaches the body stage goes on to the comparison
  with the prior request (which is then replaced by it), and no error with status 401 is
  written for it.
\<close>

theorem empty_phrase_never_rejects:
  assumes "rejectWith s = []"
  shows "contentFilter rt s cb = None \<and>
         (admitted s r \<and> contentTypeOK r \<and> capturedBody (r_Body r) = Inr cb \<longrightarrow>
            snd (ServeHTTP rt s r) = s\<lparr>priorRequest := currentRequest s r cb\<rparr> \<and>
            (\<forall>w. reply (fst (ServeHTTP rt s r)) = ErrorWritten w \<longrightarrow> status w \<noteq> 401))"
proof (intro conjI impI)
  show f: "contentFilter rt s cb = None"
    using assms by (simp add: contentFilter_def)
  assume a: "admitted s r \<and> contentTypeOK r \<and> capturedBody (r_Body r) = Inr cb"
  then obtain r' where
    e: "ServeHTTP rt s r =
     (\<lparr>slept = (if priorRequest s = currentRequest s r cb then Some (delayDuration s) else None),
       reply = forward rt (s\<lparr>priorRequest := currentRequest s r cb\<rparr>) r'\<rparr>,
      s\<lparr>priorRequest := currentRequest s r cb\<rparr>)"
    using ServeHTTP_passed [of s r cb rt] f by blast
  show "snd (ServeHTTP rt s r) = s\<lparr>priorRequest := currentRequest s r cb\<rparr>"
    by (simp add: e)
  show "\<forall>w. reply (fst (ServeHTTP rt s r)) = ErrorWritten w \<longrightarrow> status w \<noteq> 401"
    using forward_status [of rt "s\<lparr>priorRequest := currentRequest s r cb\<rparr>" r']
    by (auto simp add: e)
qed

theorem empty_phrase_never_rejects_witness:
  \<open>rejectWith (exampleServer\<lparr>rejectWith := []\<rparr>) = [] \<and>
   admitted (exampleServer\<lparr>rejectWith := []\<rparr>) exampleBadPost \<and>
   contentTypeOK exampleBadPost \<and>
   capturedBody (r_Body exampleBadPost) = Inr ''{"body": "bad_message"}'' \<and>
   contentFilter exampleRuntime (exampleServer\<lparr>rejectWith := []\<rparr>) ''{"body": "bad_message"}'' = None \<and>
   snd (ServeHTTP exampleRuntime (exampleServer\<lparr>rejectWith := []\<rparr>) exampleBadPost) =
     exampleServer\<lparr>rejectWith := [],
       priorRequest := currentRequest (exampleServer\<lparr>rejectWith := []\<rparr>) exampleBadPost
                         ''{"body": "bad_message"}''\<rparr>\<close>
proof -
  let ?s = "exampleServer\<lparr>rejectWith := []\<rparr>"
  have h: "rejectWith ?s = []" by simp
  note t = empty_phrase_never_rejects [OF h, of exampleRuntime \<open>''{"body": "bad_message"}''\<close>
      exampleBadPost]
  from t h exampleBadPost_admitted [of "[]"] exampleBadPost_contentTypeOK exampleBadPost_body
  show ?thesis by simp
qed

subsection \<open>The delay of consecutive requests\<close>

text \<open>The duration is the configured number of seconds as long as its count of
  nanoseconds fits into the 63 bits of a positive \<open>time.Duration\<close>; beyond that the
  conversion wraps around (and \<open>time.Sleep\<close> returns at once for a negative duration).\<close>

lemma delayDuration_seconds:
  assumes "unat (requestDelay s) < 9223372037"
  shows "sint (delayDuration s) = int (unat (requestDelay s)) * 1000000000"
proof -
  let ?x = "requestDelay s"
  have u: "uint ?x < 9223372037"
    using assms by (metis of_nat_less_iff of_nat_numeral uint_nat)
  have lt: "uint ?x * 1000000000 < 2 ^ 63"
    using u by simp
  have "(0::int) \<le> uint ?x * 1000000000" by simp
  moreover have "- (2 ^ 63) \<le> (0::int)" by simp
  ultimately have ge: "- (2 ^ 63) \<le> uint ?x * 1000000000" by (rule order_trans [rotated])
  have "?x * 1000000000 = word_of_int (uint ?x * 1000000000)"
    by simp
  then have "sint (?x * 1000000000) = signed_take_bit 63 (uint ?x * 1000000000)"
    by (simp only: sint_sbintrunc') simp
  also have "\<dots> = uint ?x * 1000000000"
    by (rule signed_take_bit_int_eq_self [OF ge lt])
  finally show ?thesis by (simp only: uint_nat delayDuration_def time_Second_def)
qed

lemma delayDuration_overflow:
  "sint (delayDuration (s\<lparr>requestDelay := 9223372037\<rparr>)) < 0"
  by (simp add: delayDuration_def time_Second_def)

lemma good_message_passes:
  assumes \<open>rejectExact s\<close> and \<open>\<not> rejectInsensitive s\<close> and \<open>rejectWith s = ''bad_message''\<close>
  shows \<open>contentFilter rt s ''{"body": "good_message"}'' = None\<close>
proof -
  have \<open>\<not> occursDelimited ''bad_message'' ''{"body": "good_message"}''\<close>
    unfolding occursDelimited_def by code_simp
  then show ?thesis
    using assms validate_exact [of s "ToLower rt" \<open>''{"body": "good_message"}''\<close>]
    by (simp add: contentFilter_def)
qed

text \<open>
  C2 (as amended). For a request that passes admission, the content type check, the
  capture of the body and the content filter, the handler calls \<open>time.Sleep\<close> if and
  only if the copy of the request (method, configured target URL, request URI, header
  subset and body bytes) is equal to the stored prior request, where the equality of
  \<open>cmp.Equal\<close> is the equality of all fields; for a configured delay of at most
  9223372036 seconds the duration of the sleep is the configured number of seconds
  (\<open>requestDelay\<close> times 1000000000 nanoseconds); and afterwards the stored prior request
  is this copy, whether the request was a duplicate or not.
\<close>

theorem consecutive_delay_iff_equal_and_replaced:
  assumes "admitted s r" and "contentTypeOK r" and "capturedBody (r_Body r) = Inr cb"
    and "contentFilter rt s cb = None"
  shows "(slept (fst (ServeHTTP rt s r)) \<noteq> None \<longleftrightarrow>
            priorRequest s = currentRequest s r cb) \<and>
         (unat (requestDelay s) \<le> 9223372036 \<longrightarrow>
            map_option sint (slept (fst (ServeHTTP rt s r))) =
              (if priorRequest s = currentRequest s r cb
               then Some (int (unat (requestDelay s)) * 1000000000) else None)) \<and>
         (cmpEqual (priorRequest s) (currentRequest s r cb) \<longleftrightarrow>
            priorRequest s = currentRequest s r cb) \<and>
         snd (ServeHTTP rt s r) = s\<lparr>priorRequest := currentRequest s r cb\<rparr> \<and>
         priorRequest (snd (ServeHTTP rt s r)) =
           \<lparr>Method = r_Method r, TargetURL = targetURL s, TargetURI = r_RequestURI r,
            Header = copyHeader (r_Header r), Body = Some cb\<rparr>"
proof -
  obtain r' where
    e: "ServeHTTP rt s r =
     (\<lparr>slept = (if priorRequest s = currentRequest s r cb then Some (delayDuration s) else None),
       reply = forward rt (s\<lparr>priorRequest := currentRequest s r cb\<rparr>) r'\<rparr>,
      s\<lparr>priorRequest := currentRequest s r cb\<rparr>)"
    using ServeHTTP_passed [OF assms] by blast
  have d: "unat (requestDelay s) \<le> 9223372036 \<Longrightarrow>
           sint (delayDuration s) = int (unat (requestDelay s)) * 1000000000"
    using delayDuration_seconds [of s] by simp
  show ?thesis
    by (simp add: e cmpEqual_iff d) (simp add: currentRequest_def)
qed

theorem consecutive_delay_iff_equal_and_replaced_witness:
  \<open>admitted exampleServer examplePost \<and> contentTypeOK examplePost \<and>
   capturedBody (r_Body examplePost) = Inr ''{"body": "good_message"}'' \<and>
   contentFilter exampleRuntime exampleServer ''{"body": "good_message"}'' = None \<and>
   unat (requestDelay exampleServer) \<le> 9223372036 \<and>
   map_option sint (slept (fst (ServeHTTP exampleRuntime exampleServer examplePost))) = None \<and>
   snd (ServeHTTP exampleRuntime exampleServer examplePost) = afterExamplePost \<and>
   map_option sint (slept (fst (ServeHTTP exampleRuntime afterExamplePost examplePost))) =
     Some 2000000000 \<and>
   snd (ServeHTTP exampleRuntime afterExamplePost examplePost) = afterExamplePost \<and>
   map_option sint (slept (fst (ServeHTTP exampleRuntime afterExamplePost
                 (examplePost\<lparr>r_RequestURI := ''/posts/1''\<rparr>)))) = None\<close>
proof -
  let ?cb = \<open>''{"body": "good_message"}''\<close>
  let ?r2 = \<open>examplePost\<lparr>r_RequestURI := ''/posts/1''\<rparr>\<close>
  have a1: "admitted exampleServer examplePost" and a2: "admitted afterExamplePost examplePost"
    and a3: "admitted afterExamplePost ?r2"
    by (simp_all add: admitted_def examplePost_def)
  have c1: "contentTypeOK examplePost" and c3: "contentTypeOK ?r2"
    by (simp_all add: contentTypeOK_def examplePost_def Header_Get_def)
  have b1: "capturedBody (r_Body examplePost) = Inr ?cb"
    and b3: "capturedBody (r_Body ?r2) = Inr ?cb"
    by (simp_all add: examplePost_def capturedBody_def copyBody_def)
  have f1: "contentFilter exampleRuntime exampleServer ?cb = None"
    and f2: "contentFilter exampleRuntime afterExamplePost ?cb = None"
    by (rule good_message_passes; simp add: exampleServer_def afterExamplePost_def)+
  have p1: "priorRequest exampleServer \<noteq> currentRequest exampleServer examplePost ?cb"
    by (simp add: exampleServer_def emptyRequestCopy_def currentRequest_def)
  have p2: "priorRequest afterExamplePost = currentRequest afterExamplePost examplePost ?cb"
    by (simp add: afterExamplePost_def currentRequest_def)
  have p3: "priorRequest afterExamplePost \<noteq> currentRequest afterExamplePost ?r2 ?cb"
    by (simp add: afterExamplePost_def currentRequest_def examplePost_def)
  have q1: "unat (requestDelay exampleServer) \<le> 9223372036"
    and q2: "unat (requestDelay afterExamplePost) \<le> 9223372036"
    and n2: "int (unat (requestDelay afterExamplePost)) * 1000000000 = 2000000000"
    by (simp_all add: afterExamplePost_def exampleServer_def)
  have u: "afterExamplePost\<lparr>priorRequest := currentRequest afterExamplePost examplePost ?cb\<rparr>
             = afterExamplePost"
    using p2 by simp
  note t1 = consecutive_delay_iff_equal_and_replaced [OF a1 c1 b1 f1]
  note t2 = consecutive_delay_iff_equal_and_replaced [OF a2 c1 b1 f2]
  note t3 = consecutive_delay_iff_equal_and_replaced [OF a3 c3 b3 f2]
  have r1: "map_option sint (slept (fst (ServeHTTP exampleRuntime exampleServer examplePost))) = None"
    using t1 [THEN conjunct2, THEN conjunct1] q1 p1 by simp
  have r2: "snd (ServeHTTP exampleRuntime exampleServer examplePost) = afterExamplePost"
    using t1 by (simp add: afterExamplePost_def)
  have r3: "map_option sint (slept (fst (ServeHTTP exampleRuntime afterExamplePost examplePost))) =
      Some 2000000000"
    using t2 [THEN conjunct2, THEN conjunct1] q2 p2 n2 by simp
  have r4: "snd (ServeHTTP exampleRuntime afterExamplePost examplePost) = afterExamplePost"
    using t2 u by simp
  have r5: "map_option sint (slept (fst (ServeHTTP exampleRuntime afterExamplePost ?r2))) = None"
    using t3 [THEN conjunct2, THEN conjunct1] q2 p3 by simp
  from a1 c1 b1 f1 q1 r1 r2 r3 r4 r5 show ?thesis by (intro conjI)
qed

text \<open>
  C2 as stated fails for a configured delay that is no \<open>time.Duration\<close>: with a delay of
  9223372037 seconds a request equal to the stored prior request passes all checks, and
  \<open>time.Sleep\<close> is called with a negative duration (it returns at once), not with the
  configured delay.
\<close>

theorem consecutive_delay_overflow_counterexample:
  \<open>admitted exampleLongDelay examplePost \<and> contentTypeOK examplePost \<and>
   capturedBody (r_Body examplePost) = Inr ''{"body": "good_message"}'' \<and>
   contentFilter exampleRuntime exampleLongDelay ''{"body": "good_message"}'' = None \<and>
   priorRequest exampleLongDelay =
     currentRequest exampleLongDelay examplePost ''{"body": "good_message"}'' \<and>
   unat (requestDelay exampleLongDelay) = 9223372037 \<and>
   map_option sint (slept (fst (ServeHTTP exampleRuntime exampleLongDelay examplePost))) =
     Some (- 9223372036709551616)\<close>
proof -
  let ?cb = \<open>''{"body": "good_message"}''\<close>
  have a: "admitted exampleLongDelay examplePost"
    by (simp add: admitted_def examplePost_def)
  have c: "contentTypeOK examplePost"
    by (simp add: contentTypeOK_def examplePost_def Header_Get_def)
  have b: "capturedBody (r_Body examplePost) = Inr ?cb"
    by (simp add: examplePost_def capturedBody_def copyBody_def)
  have f: "contentFilter exampleRuntime exampleLongDelay ?cb = None"
    by (rule good_message_passes;
        simp add: exampleLongDelay_def exampleServer_def afterExamplePost_def)
  have p: "priorRequest exampleLongDelay = currentRequest exampleLongDelay examplePost ?cb"
    by (simp add: exampleLongDelay_def afterExamplePost_def currentRequest_def)
  have q: "unat (requestDelay exampleLongDelay) = 9223372037"
    by (simp add: exampleLongDelay_def)
  have d: "sint (delayDuration exampleLongDelay) = - 9223372036709551616"
    by (simp add: delayDuration_def time_Second_def exampleLongDelay_def)
  from ServeHTTP_passed [OF a c b f] obtain r' where
    e: "ServeHTTP exampleRuntime exampleLongDelay examplePost =
     (\<lparr>slept = (if priorRequest exampleLongDelay = currentRequest exampleLongDelay examplePost ?cb
                then Some (delayDuration exampleLongDelay) else None),
       reply = forward exampleRuntime
                 (exampleLongDelay\<lparr>priorRequest := currentRequest exampleLongDelay examplePost ?cb\<rparr>) r'\<rparr>,
      exampleLongDelay\<lparr>priorRequest := currentRequest exampleLongDelay examplePost ?cb\<rparr>)"
    by blast
  have s: "map_option sint (slept (fst (ServeHTTP exampleRuntime exampleLongDelay examplePost))) =
     Some (- 9223372036709551616)"
    using p d by (simp add: e)
  from a c b f p q s show ?thesis by (intro conjI)
qed

subsection \<open>The content type check\<close>

text \<open>
  C5 (as amended). For every request that passes admission (the server does not insist
  on \<open>POST\<close>, \<open>PUT\<close> or \<open>PATCH\<close>, or the method is one of them) and whose
  \<open>Content-Type\<close> header value, as \<open>Header.Get\<close> returns it, is not exactly
  \<open>application/json\<close> (absent, or with a parameter such as a charset), the response
  status is 415, whatever the body; nothing is slept and the server is left as it was.
\<close>

theorem unsupported_media_type_when_admitted:
  assumes "admitted s r"
    and "Header_Get (r_Header r) ''Content-Type'' \<noteq> ''application/json''"
  shows "replyStatus (reply (fst (ServeHTTP rt s r))) = Some 415 \<and>
         slept (fst (ServeHTTP rt s r)) = None \<and>
         snd (ServeHTTP rt s r) = s"
  using ServeHTTP_content_type [of s r rt] assms
  by (simp add: contentTypeOK_def replyStatus_writeError validStatusCode_def)

theorem unsupported_media_type_when_admitted_witness:
  \<open>admitted exampleServer
     (examplePost\<lparr>r_Header := [(''Content-Type'', Some [''application/json; charset=utf-8''])]\<rparr>) \<and>
   Header_Get [(''Content-Type'', Some [''application/json; charset=utf-8''])] ''Content-Type''
     \<noteq> ''application/json'' \<and>
   replyStatus (reply (fst (ServeHTTP exampleRuntime exampleServer
     (examplePost\<lparr>r_Header := [(''Content-Type'', Some [''application/json; charset=utf-8''])]\<rparr>))))
     = Some 415 \<and>
   admitted (exampleServer\<lparr>bodyMethodsOnly := False\<rparr>) (exampleGet\<lparr>r_Header := []\<rparr>) \<and>
   Header_Get [] ''Content-Type'' \<noteq> ''application/json'' \<and>
   replyStatus (reply (fst (ServeHTTP exampleRuntime (exampleServer\<lparr>bodyMethodsOnly := False\<rparr>)
     (exampleGet\<lparr>r_Header := []\<rparr>)))) = Some 415\<close>
proof -
  let ?h = \<open>[(''Content-Type'', Some [''application/json; charset=utf-8''])]\<close>
  let ?r1 = "examplePost\<lparr>r_Header := ?h\<rparr>"
  let ?s2 = "exampleServer\<lparr>bodyMethodsOnly := False\<rparr>"
  let ?r2 = "exampleGet\<lparr>r_Header := []\<rparr>"
  have a1: "admitted exampleServer ?r1"
    by (simp add: admitted_def examplePost_def)
  have h1: "Header_Get (r_Header ?r1) ''Content-Type'' \<noteq> ''application/json''"
    by (simp add: Header_Get_def)
  have a2: "admitted ?s2 ?r2"
    by (simp add: admitted_def)
  have h2: "Header_Get (r_Header ?r2) ''Content-Type'' \<noteq> ''application/json''"
    by (simp add: Header_Get_def)
  from unsupported_media_type_when_admitted [OF a1 h1, of exampleRuntime]
    unsupported_media_type_when_admitted [OF a2 h2, of exampleRuntime]
    a1 h1 a2 h2
  show ?thesis by simp
qed

text \<open>
  C5 as stated does not hold regardless of the method: the method is checked first, so
  a \<open>GET\<close> with content type \<open>text/html\<close>, sent to a server that accepts only methods
  with a body, is answered with status 405.
\<close>

theorem unsupported_media_type_counterexample:
  \<open>Header_Get (r_Header exampleGet) ''Content-Type'' \<noteq> ''application/json'' \<and>
   replyStatus (reply (fst (ServeHTTP exampleRuntime exampleServer exampleGet))) = Some 405\<close>
proof -
  have "\<not> admitted exampleServer exampleGet"
    by (simp add: admitted_def exampleServer_def exampleGet_def)
  then show ?thesis
    by (simp add: ServeHTTP_not_admitted replyStatus_writeError validStatusCode_def)
      (simp add: exampleGet_def Header_Get_def)
qed

subsection \<open>Errors of the client leave the prior request alone\<close>

text \<open>
  C8. Whenever the handler writes an error with status 405, 415, 400 or 401, the stored
  prior request is the one from before the request was handled (the whole server is
  unchanged). The errors that the handler writes after it has replaced the prior
  request have status 500 or 502.
\<close>

theorem client_error_keeps_prior_request:
  assumes "reply (fst (ServeHTTP rt s r)) = ErrorWritten w"
    and "status w \<in> {405, 415, 400, 401}"
  shows "priorRequest (snd (ServeHTTP rt s r)) = priorRequest s \<and> snd (ServeHTTP rt s r) = s"
proof (cases "admitted s r")
  case False
  then show ?thesis by (simp add: ServeHTTP_not_admitted)
next
  case adm: True
  show ?thesis
  proof (cases "contentTypeOK r")
    case False
    with adm show ?thesis by (simp add: ServeHTTP_content_type)
  next
    case ct: True
    show ?thesis
    proof (cases "capturedBody (r_Body r)")
      case (Inl e)
      with adm ct show ?thesis
        by (cases e) (simp_all add: ServeHTTP_body_error ServeHTTP_body_panic)
    next
      case (Inr cb)
      show ?thesis
      proof (cases "contentFilter rt s cb")
        case (Some e)
        with adm ct Inr show ?thesis by (simp add: ServeHTTP_rejected)
      next
        case None
        from ServeHTTP_passed [OF adm ct Inr None] obtain r' where
          e: "ServeHTTP rt s r =
           (\<lparr>slept = (if priorRequest s = currentRequest s r cb then Some (delayDuration s) else None),
             reply = forward rt (s\<lparr>priorRequest := currentRequest s r cb\<rparr>) r'\<rparr>,
            s\<lparr>priorRequest := currentRequest s r cb\<rparr>)"
          by blast
        then have "forward rt (s\<lparr>priorRequest := currentRequest s r cb\<rparr>) r' = ErrorWritten w"
          using assms(1) by simp
        then have "status w = 500 \<or> status w = 502"
          by (rule forward_status)
        with assms(2) show ?thesis by auto
      qed
    qed
  qed
qed

theorem client_error_keeps_prior_request_witness:
  \<open>reply (fst (ServeHTTP exampleRuntime afterExamplePost exampleBadPost)) =
     ErrorWritten
       \<lparr>status = 401,
        w_Header = [(''Content-Type'', ''application/json''), (''Content-Length'', ''79'')],
        w_Body =
          ''{"code":"401","msg":"rejected because `bad_message` found within request body"}''\<rparr> \<and>
   (401 :: int) \<in> {405, 415, 400, 401} \<and>
   priorRequest (snd (ServeHTTP exampleRuntime afterExamplePost exampleBadPost)) =
     currentRequest exampleServer examplePost ''{"body": "good_message"}''\<close>
proof -
  let ?m = \<open>''rejected because `bad_message` found within request body''\<close>
  let ?w = \<open>\<lparr>status = 401,
        w_Header = [(''Content-Type'', ''application/json''), (''Content-Length'', ''79'')],
        w_Body =
          ''{"code":"401","msg":"rejected because `bad_message` found within request body"}''\<rparr>\<close>
  have a: "admitted afterExamplePost exampleBadPost"
    by (simp add: admitted_def exampleBadPost_def examplePost_def)
  have f: \<open>contentFilter exampleRuntime afterExamplePost ''{"body": "bad_message"}'' = Some ?m\<close>
    unfolding contentFilter_def validateRequestBody_def afterExamplePost_def exampleServer_def
    by simp
  have i: \<open>Itoa 401 = ''401''\<close> and l: \<open>Itoa 79 = ''79''\<close>
    by code_simp+
  have w: "writeError exampleRuntime 401 ?m = ErrorWritten ?w"
    by (simp add: writeError_def validStatusCode_def exampleRuntime_def i l)
  have e: "reply (fst (ServeHTTP exampleRuntime afterExamplePost exampleBadPost)) = ErrorWritten ?w"
    using ServeHTTP_rejected [OF a exampleBadPost_contentTypeOK exampleBadPost_body f] w by simp
  have st: "status ?w \<in> {405, 415, 400, 401}"
    by simp
  from client_error_keeps_prior_request [OF e st] e show ?thesis
    by (simp add: afterExamplePost_def)
qed

subsection \<open>The rewritten URL\<close>

lemma drop_one_slash:
  assumes "suffix ''/'' a" and "prefix ''/'' b"
  shows "a @ tl b = butlast a @ b"
proof -
  from assms(1) obtain a' where a: "a = a' @ ''/''" by (auto simp add: suffix_def)
  from assms(2) obtain b' where b: "b = ''/'' @ b'" by (auto simp add: prefix_def)
  show ?thesis by (simp add: a b)
qed

lemma singleJoiningSlash_specJoin: "singleJoiningSlash a b = specJoin a b"
  by (simp add: singleJoiningSlash_def specJoin_def HasSuffix_iff HasPrefix_iff
      drop_one_slash Let_def)

lemma joinBy_specJoin: "joinBy (suffix ''/'' a) (prefix ''/'' b) a b = specJoin a b"
  by (simp add: specJoin_def joinBy_def drop_one_slash)

lemma joinQuery_specQuery: "joinQuery t q = specQuery t q"
  by (simp add: joinQuery_def specQuery_def)

lemma r_URL_sanitizeHeader [simp]: "r_URL (sanitizeHeader r) = r_URL r"
  by (simp add: sanitizeHeader_def)

lemma joinURLPath_plain:
  "u_RawPath a = [] \<Longrightarrow> u_RawPath b = [] \<Longrightarrow>
   joinURLPath rt a b = Inr (specJoin (u_Path a) (u_Path b), [])"
  by (simp add: joinURLPath_def singleJoiningSlash_specJoin)

lemma joinURLPath_raw:
  assumes "\<not> (u_RawPath a = [] \<and> u_RawPath b = [])"
    and "\<not> (suffix ''/'' (EscapedPath rt a) \<and> prefix ''/'' (EscapedPath rt b) \<and> u_Path b = [])"
  shows "joinURLPath rt a b =
     Inr (joinBy (suffix ''/'' (EscapedPath rt a)) (prefix ''/'' (EscapedPath rt b))
            (u_Path a) (u_Path b),
          specJoin (EscapedPath rt a) (EscapedPath rt b))"
  using assms
  by (auto simp add: joinURLPath_def Let_def HasSuffix_iff HasPrefix_iff sliceFrom1_def
      specJoin_def joinBy_def drop_one_slash)

lemma joinURLPath_panic:
  assumes "\<not> (u_RawPath a = [] \<and> u_RawPath b = [])"
    and "suffix ''/'' (EscapedPath rt a)" and "prefix ''/'' (EscapedPath rt b)" and "u_Path b = []"
  shows "joinURLPath rt a b = Inl (Panic ''slice bounds out of range'')"
  using assms
  by (auto simp add: joinURLPath_def Let_def HasSuffix_iff HasPrefix_iff sliceFrom1_def)

lemma prepareRequest_url:
  assumes "url_Parse rt (targetURL s) = Some a"
    and "joinURLPath rt a (inboundURL a r) = Inr (p, rp)"
  shows "\<exists>req. prepareRequest rt s r = Inr req \<and>
           r_URL req = \<lparr>u_Scheme = u_Scheme a, u_Host = u_Host a, u_Path = p, u_RawPath = rp,
                        u_RawQuery = specQuery (u_RawQuery a) (u_RawQuery (r_URL r))\<rparr>"
  using assms
  by (cases "r_URL r") (simp add: prepareRequest_def inboundURL_def Let_def joinQuery_specQuery)

text \<open>
  C3 (as amended). For a target URL that parses and an inbound request URL (and when
  the slice \<open>b.Path[1:]\<close> does not panic): the rewritten query is the non-empty one of
  the two queries when either is empty, otherwise the target's query, \<open>&\<close> and the
  inbound query. When neither URL has a raw path, the rewritten path is the join of the
  target's path and the inbound path with one separating slash, and the raw path stays
  empty. When one of them has a raw path, the rewritten raw path is the join of the two
  escaped paths by the same rule, and the path is joined with the slash tests taken
  from the escaped paths, not from the paths; it is the one-slash join of the paths
  whenever the escaped forms end and start with a slash exactly when the paths do.
\<close>

theorem rewritten_path_and_query:
  assumes "url_Parse rt (targetURL s) = Some a"
    and "b = inboundURL a r"
    and "u_RawPath a = [] \<and> u_RawPath b = [] \<or>
         \<not> (suffix ''/'' (EscapedPath rt a) \<and> prefix ''/'' (EscapedPath rt b) \<and> u_Path b = [])"
  shows "\<exists>req. prepareRequest rt s r = Inr req \<and>
           u_RawQuery (r_URL req) = specQuery (u_RawQuery a) (u_RawQuery (r_URL r)) \<and>
           (if u_RawPath a = [] \<and> u_RawPath b = []
            then u_Path (r_URL req) = specJoin (u_Path a) (u_Path b) \<and>
                 u_RawPath (r_URL req) = []
            else u_RawPath (r_URL req) = specJoin (EscapedPath rt a) (EscapedPath rt b) \<and>
                 u_Path (r_URL req) =
                   joinBy (suffix ''/'' (EscapedPath rt a)) (prefix ''/'' (EscapedPath rt b))
                     (u_Path a) (u_Path b) \<and>
                 (suffix ''/'' (EscapedPath rt a) = suffix ''/'' (u_Path a) \<and>
                  prefix ''/'' (EscapedPath rt b) = prefix ''/'' (u_Path b) \<longrightarrow>
                    u_Path (r_URL req) = specJoin (u_Path a) (u_Path b)))"
proof (cases "u_RawPath a = [] \<and> u_RawPath b = []")
  case True
  then have "joinURLPath rt a (inboundURL a r) = Inr (specJoin (u_Path a) (u_Path b), [])"
    using assms(2) joinURLPath_plain [of a b rt] by simp
  from prepareRequest_url [OF assms(1) this] True show ?thesis by auto
next
  case False
  with assms(3)
  have np: "\<not> (suffix ''/'' (EscapedPath rt a) \<and> prefix ''/'' (EscapedPath rt b) \<and> u_Path b = [])"
    by blast
  have "joinURLPath rt a (inboundURL a r) =
     Inr (joinBy (suffix ''/'' (EscapedPath rt a)) (prefix ''/'' (EscapedPath rt b))
            (u_Path a) (u_Path b),
          specJoin (EscapedPath rt a) (EscapedPath rt b))"
    using joinURLPath_raw [OF False np] assms(2) by simp
  from prepareRequest_url [OF assms(1) this] False show ?thesis
    by (auto simp add: joinBy_specJoin)
qed

theorem rewritten_path_and_query_witness:
  \<open>map_sum id r_URL
     (prepareRequest exampleRuntime (exampleServer\<lparr>targetURL := ''http://x/base/?key=1''\<rparr>)
        (examplePost\<lparr>r_URL := exampleDirURL\<rparr>)) =
   Inr \<lparr>u_Scheme = ''http'', u_Host = ''x'', u_Path = ''/base/dir'', u_RawPath = [],
        u_RawQuery = ''key=1&x=2''\<rparr>\<close>
proof -
  let ?s = \<open>exampleServer\<lparr>targetURL := ''http://x/base/?key=1''\<rparr>\<close>
  let ?r = \<open>examplePost\<lparr>r_URL := exampleDirURL\<rparr>\<close>
  let ?a = \<open>\<lparr>u_Scheme = ''http'', u_Host = ''x'',
             u_Path = ''/base/'', u_RawPath = [], u_RawQuery = ''key=1''\<rparr>\<close>
  have p: "url_Parse exampleRuntime (targetURL ?s) = Some ?a"
    by (simp add: exampleRuntime_def)
  have n: "u_RawPath ?a = [] \<and> u_RawPath (inboundURL ?a ?r) = [] \<or>
         \<not> (suffix ''/'' (EscapedPath exampleRuntime ?a) \<and>
            prefix ''/'' (EscapedPath exampleRuntime (inboundURL ?a ?r)) \<and>
            u_Path (inboundURL ?a ?r) = [])"
    by (simp add: inboundURL_def exampleDirURL_def)
  have j: \<open>specJoin ''/base/'' ''/dir'' = ''/base/dir''\<close>
    by (simp add: specJoin_def suffix_to_prefix)
  have q: \<open>specQuery ''key=1'' ''x=2'' = ''key=1&x=2''\<close>
    by (simp add: specQuery_def)
  from rewritten_path_and_query [OF p refl n] obtain req where
    e: "prepareRequest exampleRuntime ?s ?r = Inr req"
    and f: "u_RawQuery (r_URL req) = ''key=1&x=2''" "u_Path (r_URL req) = ''/base/dir''"
      "u_RawPath (r_URL req) = []"
    by (auto simp add: inboundURL_def exampleDirURL_def j q)
  have g: "u_Scheme (r_URL req) = ''http'' \<and> u_Host (r_URL req) = ''x''"
    using e p by (auto simp add: prepareRequest_def Let_def split: sum.splits)
  show ?thesis
    using f g by (cases "r_URL req") (simp add: e)
qed

text \<open>
  C3 as stated fails when a slash at the joint is percent-encoded: for the target
  \<open>http://x/base%2F\<close> (path \<open>/base/\<close>, raw path \<open>/base%2F\<close>) and the inbound path
  \<open>/dir\<close> the rewritten path is \<open>/base//dir\<close>, with two slashes, where the rule of the
  claim gives \<open>/base/dir\<close>.
\<close>

theorem rewritten_path_counterexample:
  \<open>map_sum id r_URL
     (prepareRequest exampleRuntime (exampleServer\<lparr>targetURL := ''http://x/base%2F''\<rparr>)
        (examplePost\<lparr>r_URL := exampleDirURL\<rparr>)) =
   Inr \<lparr>u_Scheme = ''http'', u_Host = ''x'', u_Path = ''/base//dir'',
        u_RawPath = ''/base%2F/dir'', u_RawQuery = ''x=2''\<rparr> \<and>
   specJoin ''/base/'' ''/dir'' = ''/base/dir''\<close>
proof -
  let ?s = \<open>exampleServer\<lparr>targetURL := ''http://x/base%2F''\<rparr>\<close>
  let ?r = \<open>examplePost\<lparr>r_URL := exampleDirURL\<rparr>\<close>
  let ?a = \<open>\<lparr>u_Scheme = ''http'', u_Host = ''x'',
             u_Path = ''/base/'', u_RawPath = ''/base%2F'', u_RawQuery = []\<rparr>\<close>
  have p: "url_Parse exampleRuntime (targetURL ?s) = Some ?a"
    by (simp add: exampleRuntime_def)
  have j: \<open>joinURLPath exampleRuntime ?a (inboundURL ?a ?r) =
             Inr (''/base//dir'', ''/base%2F/dir'')\<close>
    by (simp add: joinURLPath_def exampleRuntime_def exampleDirURL_def inboundURL_def
        HasSuffix_def Let_def)
  from prepareRequest_url [OF p j] obtain req where
    e: "prepareRequest exampleRuntime ?s ?r = Inr req"
    and u: \<open>r_URL req = \<lparr>u_Scheme = ''http'', u_Host = ''x'', u_Path = ''/base//dir'',
        u_RawPath = ''/base%2F/dir'',
        u_RawQuery = specQuery [] (u_RawQuery (r_URL ?r))\<rparr>\<close>
    by auto
  have \<open>map_sum id r_URL (prepareRequest exampleRuntime ?s ?r) =
   Inr \<lparr>u_Scheme = ''http'', u_Host = ''x'', u_Path = ''/base//dir'',
        u_RawPath = ''/base%2F/dir'', u_RawQuery = ''x=2''\<rparr>\<close>
    by (simp add: e u) (simp add: specQuery_def exampleDirURL_def)
  moreover have \<open>specJoin ''/base/'' ''/dir'' = ''/base/dir''\<close>
    by (simp add: specJoin_def suffix_to_prefix)
  ultimately show ?thesis by (intro conjI)
qed

subsection \<open>The error response\<close>

lemma map_option_append_Nil: "map_option ((@) []) x = x"
  by (cases x) simp_all

lemma lexJSON_plain:
  "list_all plainChar xs \<Longrightarrow>
   lexJSON (LexString acc) (xs @ rest) = lexJSON (LexString (rev xs @ acc)) rest"
proof (induction xs arbitrary: acc)
  case Nil
  then show ?case by simp
next
  case (Cons c cs)
  then have "lexChar (LexString acc) c = Some ([], LexString (c # acc))"
    by (simp add: lexChar_def plainChar_def)
  with Cons show ?case by (simp add: map_option_append_Nil)
qed

lemma plainChar_digitChar: "d < 10 \<Longrightarrow> plainChar (digitChar d)"
proof -
  assume d: "d < 10"
  then have o: "(of_char (digitChar d) :: nat) = 48 + d"
    by (simp add: digitChar_def)
  have "digitChar d \<noteq> CHR 0x22"
  proof
    assume "digitChar d = CHR 0x22"
    then have "(of_char (digitChar d) :: nat) = of_char (CHR 0x22)" by simp
    with o show False by simp
  qed
  moreover have "digitChar d \<noteq> CHR 0x5C"
  proof
    assume "digitChar d = CHR 0x5C"
    then have "(of_char (digitChar d) :: nat) = of_char (CHR 0x5C)" by simp
    with o d show False by simp
  qed
  ultimately show ?thesis using o by (simp add: plainChar_def)
qed

lemma plainChar_natDigits: "list_all plainChar (natDigits n)"
proof (induction n rule: natDigits.induct)
  case (1 n)
  show ?case
  proof (cases "n < 10")
    case True
    then show ?thesis by (simp add: natDigits.simps [of n] plainChar_digitChar)
  next
    case False
    with 1 show ?thesis by (simp add: natDigits.simps [of n] plainChar_digitChar)
  qed
qed

lemma plainChar_Itoa: "list_all plainChar (Itoa i)"
  by (simp add: Itoa_def plainChar_natDigits) (simp add: plainChar_def)

lemma lexJSON_fallback_tail:
  \<open>lexJSON (LexString acc)
     ''""msg": "There was a response that could not be serialized into JSON"}'' =
   Some [TString (rev acc), TString ''msg'', Colon,
         TString ''There was a response that could not be serialized into JSON'', RBrace]\<close>
proof -
  have \<open>lexJSON LexStart ''"msg": "There was a response that could not be serialized into JSON"}'' =
   Some [TString ''msg'', Colon,
         TString ''There was a response that could not be serialized into JSON'', RBrace]\<close>
    by code_simp
  then show ?thesis by (simp add: lexChar_def)
qed

lemma lexJSON_fallbackBody:
  assumes "list_all plainChar cs"
  shows \<open>lexJSON LexStart (fallbackBody cs) =
     Some [LBrace, TString ''code'', Colon, TString cs, TString ''msg'', Colon,
           TString ''There was a response that could not be serialized into JSON'', RBrace]\<close>
proof -
  let ?tail = \<open>''""msg": "There was a response that could not be serialized into JSON"}''\<close>
  have \<open>lexJSON LexStart (fallbackBody cs) =
          map_option (\<lambda>ts. LBrace # TString ''code'' # Colon # ts)
            (lexJSON (LexString []) (cs @ ?tail))\<close>
    by (simp add: fallbackBody_def lexChar_def lexStartChar_def isWhitespace_def isDigit_def
        option.map_comp comp_def)
  also have \<open>lexJSON (LexString []) (cs @ ?tail) = lexJSON (LexString (rev cs)) ?tail\<close>
    using lexJSON_plain [OF assms, of "[]" ?tail] by simp
  also have \<open>\<dots> = Some [TString cs, TString ''msg'', Colon,
         TString ''There was a response that could not be serialized into JSON'', RBrace]\<close>
    using lexJSON_fallback_tail [of "rev cs"] by simp
  finally show ?thesis by simp
qed

lemma fallbackBody_not_JSON:
  assumes "list_all plainChar cs"
  shows "\<not> isJSONObject (fallbackBody cs)" and "\<not> isJSON (fallbackBody cs)"
  by (simp_all add: isJSONObject_def isJSON_def lexJSON_fallbackBody [OF assms])

lemma writeError_fallback:
  "validStatusCode code \<Longrightarrow> json_Marshal rt \<lparr>Code = Itoa code, Msg = msg\<rparr> = None \<Longrightarrow>
   \<exists>w. writeError rt code msg = ErrorWritten w \<and> w_Body w = fallbackBody (Itoa code)"
  by (simp add: writeError_def fallbackBody_def Let_def)




subsection \<open>The header subset\<close>

lemma copyHeaderEntry_fields:
  "Host (copyHeaderEntry (k, vv) hc) = (if k = ''Host'' then vv else Host hc)"
  "Accept (copyHeaderEntry (k, vv) hc) = (if k = ''Accept'' then vv else Accept hc)"
  "UserAgent (copyHeaderEntry (k, vv) hc) = (if k = ''User-Agent'' then vv else UserAgent hc)"
  "Connection (copyHeaderEntry (k, vv) hc) = (if k = ''Connection'' then vv else Connection hc)"
  "ContentType (copyHeaderEntry (k, vv) hc) =
     (if k = ''Content-Type'' then vv else ContentType hc)"
  "ContentLength (copyHeaderEntry (k, vv) hc) =
     (if k = ''Content-Length'' then vv else ContentLength hc)"
  "AcceptEncoding (copyHeaderEntry (k, vv) hc) =
     (if k = ''AcceptEncoding'' then vv else AcceptEncoding hc)"
  by (simp_all add: copyHeaderEntry_def)

lemma fold_field:
  assumes sel: "\<And>k vv hc. sel (copyHeaderEntry (k, vv) hc) = (if k = key then vv else sel hc)"
    and d: "distinct (map fst h)"
  shows "sel (fold copyHeaderEntry h hc) =
           (case map_of h key of None \<Rightarrow> sel hc | Some vv \<Rightarrow> vv)"
  using d
proof (induction h arbitrary: hc)
  case Nil
  then show ?case by simp
next
  case (Cons kv h)
  obtain k vv where kv: "kv = (k, vv)" by (cases kv)
  from Cons.prems kv have nk: "map_of h k = None" and d: "distinct (map fst h)"
    by (simp_all add: map_of_eq_None_iff)
  show ?case
    using nk by (auto simp add: Cons.IH [OF d] kv sel split: option.splits)
qed

text \<open>What \<open>copyHeader\<close> captures from a header map (whose names are distinct): the
  values under six header names, and those under the name \<open>AcceptEncoding\<close>, which is
  not the canonical name \<open>Accept-Encoding\<close> that \<open>net/http\<close> stores the header under.\<close>

lemma copyHeader_fields:
  assumes "distinct (map fst h)"
  shows "copyHeader h =
     \<lparr>Host = headerValues h ''Host'',
      Accept = headerValues h ''Accept'',
      UserAgent = headerValues h ''User-Agent'',
      Connection = headerValues h ''Connection'',
      ContentType = headerValues h ''Content-Type'',
      ContentLength = headerValues h ''Content-Length'',
      AcceptEncoding = headerValues h ''AcceptEncoding''\<rparr>"
proof -
  have e: "emptyHeaderCopy =
     \<lparr>Host = None, Accept = None, UserAgent = None, Connection = None,
      ContentType = None, ContentLength = None, AcceptEncoding = None\<rparr>"
    by (simp add: emptyHeaderCopy_def)
  have "Host (copyHeader h) = headerValues h ''Host''"
    unfolding copyHeader_def headerValues_def
    by (simp add: fold_field [of Host, OF copyHeaderEntry_fields(1) assms] e split: option.splits)
  moreover have "Accept (copyHeader h) = headerValues h ''Accept''"
    unfolding copyHeader_def headerValues_def
    by (simp add: fold_field [of Accept, OF copyHeaderEntry_fields(2) assms] e split: option.splits)
  moreover have "UserAgent (copyHeader h) = headerValues h ''User-Agent''"
    unfolding copyHeader_def headerValues_def
    by (simp add: fold_field [of UserAgent, OF copyHeaderEntry_fields(3) assms] e split: option.splits)
  moreover have "Connection (copyHeader h) = headerValues h ''Connection''"
    unfolding copyHeader_def headerValues_def
    by (simp add: fold_field [of Connection, OF copyHeaderEntry_fields(4) assms] e split: option.splits)
  moreover have "ContentType (copyHeader h) = headerValues h ''Content-Type''"
    unfolding copyHeader_def headerValues_def
    by (simp add: fold_field [of ContentType, OF copyHeaderEntry_fields(5) assms] e split: option.splits)
  moreover have "ContentLength (copyHeader h) = headerValues h ''Content-Length''"
    unfolding copyHeader_def headerValues_def
    by (simp add: fold_field [of ContentLength, OF copyHeaderEntry_fields(6) assms] e split: option.splits)
  moreover have "AcceptEncoding (copyHeader h) = headerValues h ''AcceptEncoding''"
    unfolding copyHeader_def headerValues_def
    by (simp add: fold_field [of AcceptEncoding, OF copyHeaderEntry_fields(7) assms] e split: option.splits)
  ultimately show ?thesis
    by (cases "copyHeader h") simp
qed

lemma copyHeaderEntry_Accept_Encoding:
  "copyHeaderEntry (''Accept-Encoding'', vv) hc = hc"
  by (simp add: copyHeaderEntry_def)

text \<open>
  C4 (the code at the failing input). The request \<open>examplePost\<close> carries the header
  \<open>Accept-Encoding: gzip\<close>, and the field \<open>AcceptEncoding\<close> of its header copy is
  \<open>nil\<close>, while \<open>Content-Type\<close> is captured; the same request with
  \<open>Accept-Encoding: identity\<close> has the same header copy and the same request copy,
  so the two count as duplicates of each other.
\<close>

theorem copyHeader_misses_Accept_Encoding:
  \<open>headerValues (r_Header examplePost) ''Accept-Encoding'' = Some [''gzip''] \<and>
   AcceptEncoding (copyHeader (r_Header examplePost)) = None \<and>
   ContentType (copyHeader (r_Header examplePost)) = Some [''application/json''] \<and>
   copyHeader [(''Content-Type'', Some [''application/json'']),
               (''Accept-Encoding'', Some [''identity'']),
               (''User-Agent'', Some [''Go-http-client/1.1'']),
               (''Content-Length'', Some [''24''])] = copyHeader (r_Header examplePost) \<and>
   currentRequest exampleServer
     (examplePost\<lparr>r_Header := [(''Content-Type'', Some [''application/json'']),
               (''Accept-Encoding'', Some [''identity'']),
               (''User-Agent'', Some [''Go-http-client/1.1'']),
               (''Content-Length'', Some [''24''])]\<rparr>) ''{"body": "good_message"}'' =
   currentRequest exampleServer examplePost ''{"body": "good_message"}''\<close>
proof -
  let ?h2 = \<open>[(''Content-Type'', Some [''application/json'']),
               (''Accept-Encoding'', Some [''identity'']),
               (''User-Agent'', Some [''Go-http-client/1.1'']),
               (''Content-Length'', Some [''24''])]\<close>
  have d1: "distinct (map fst (r_Header examplePost))" and d2: "distinct (map fst ?h2)"
    by (simp_all add: examplePost_def)
  have v: \<open>headerValues (r_Header examplePost) ''Accept-Encoding'' = Some [''gzip'']\<close>
    by (simp add: examplePost_def headerValues_def)
  have c1: \<open>copyHeader (r_Header examplePost) =
     \<lparr>Host = None, Accept = None, UserAgent = Some [''Go-http-client/1.1''], Connection = None,
      ContentType = Some [''application/json''], ContentLength = Some [''24''],
      AcceptEncoding = None\<rparr>\<close>
    by (simp add: copyHeader_fields [OF d1]) (simp add: examplePost_def headerValues_def)
  have c2: \<open>copyHeader ?h2 =
     \<lparr>Host = None, Accept = None, UserAgent = Some [''Go-http-client/1.1''], Connection = None,
      ContentType = Some [''application/json''], ContentLength = Some [''24''],
      AcceptEncoding = None\<rparr>\<close>
    by (simp add: copyHeader_fields [OF d2]) (simp add: headerValues_def)
  show ?thesis
    by (simp add: v c1 c2 currentRequest_def)
qed

subsection \<open>The read, compare and replace of the prior request are not one step\<close>

lemma currentRequest_priorRequest [simp]:
  "currentRequest (s\<lparr>priorRequest := p\<rparr>) r cb = currentRequest s r cb"
  by (simp add: currentRequest_def)

lemma delayDuration_priorRequest [simp]:
  "delayDuration (s\<lparr>priorRequest := p\<rparr>) = delayDuration s"
  by (simp add: delayDuration_def)

text \<open>The twenty orders in which two handlers can take their three steps each.\<close>

lemma shuffles_three:
  "shuffles [0, 0, 0] [1, 1, 1 :: nat] =
     {[0,0,0,1,1,1], [0,0,1,0,1,1], [0,0,1,1,0,1], [0,0,1,1,1,0], [0,1,0,0,1,1],
      [0,1,0,1,0,1], [0,1,0,1,1,0], [0,1,1,0,0,1], [0,1,1,0,1,0], [0,1,1,1,0,0],
      [1,0,0,0,1,1], [1,0,0,1,0,1], [1,0,0,1,1,0], [1,0,1,0,0,1], [1,0,1,0,1,0],
      [1,0,1,1,0,0], [1,1,0,0,0,1], [1,1,0,0,1,0], [1,1,0,1,0,0], [1,1,1,0,0,0]}"
  by (simp add: insert_commute) 

text \<open>Two handlers of the same request, on a server whose prior request is another
  one: whatever the order of their steps, the prior request is replaced by the copy
  of the request; the handler that comes second sleeps when all its steps come after
  all steps of the first, and in every other order neither handler sleeps.\<close>

lemma two_handlers_run:
  assumes "priorRequest s \<noteq> currentRequest s r cb"
    and "sched \<in> shuffles [0, 0, 0] [1, 1, 1]"
  shows "runHandlers sched (s, [Ready r cb, Ready r cb]) =
           Some (s\<lparr>priorRequest := currentRequest s r cb\<rparr>,
                 [Replaced (if sched = [1, 1, 1, 0, 0, 0] then Some (delayDuration s) else None),
                  Replaced (if sched = [0, 0, 0, 1, 1, 1] then Some (delayDuration s) else None)])"
  using assms(2) unfolding shuffles_three
  by (auto simp add: cmpEqual_iff assms(1))


text \<open>
  C9 (as amended). \<open>ServeHTTP\<close> takes no lock: the read of the stored prior request,
  the comparison (with the sleep) and the replacement are separate steps, and the
  steps of handlers that run at the same time can fall between them. When the three
  steps of one handler run with no step of another handler in between, they have the
  effect of \<open>delayConsecutive\<close>: the handler sleeps if and only if its copy of the
  request equals the stored prior request, which is then replaced by the copy. When
  two handlers of the same request, which differs from the stored prior request,
  overlap in any of the eighteen orders of their steps in which neither handler runs
  wholly before the other, neither of them sleeps, so the duplicate is missed; only
  in the two orders in which one handler runs wholly before the other does the second
  one sleep.
\<close>

theorem handlers_are_not_mutually_excluded:
  assumes "i < length hs" and "hs ! i = Ready r cb"
  shows "runHandlers [i, i, i] (s, hs) =
           Some (snd (delayConsecutive s r cb),
                 hs[i := Replaced (fst (delayConsecutive s r cb))]) \<and>
         (priorRequest s \<noteq> currentRequest s r cb \<longrightarrow>
            (\<forall>sched \<in> shuffles [0, 0, 0] [1, 1, 1].
               runHandlers sched (s, [Ready r cb, Ready r cb]) =
                 Some (s\<lparr>priorRequest := currentRequest s r cb\<rparr>,
                       [Replaced (if sched = [1, 1, 1, 0, 0, 0]
                                  then Some (delayDuration s) else None),
                        Replaced (if sched = [0, 0, 0, 1, 1, 1]
                                  then Some (delayDuration s) else None)])))"
proof (intro conjI impI ballI)
  show "runHandlers [i, i, i] (s, hs) =
           Some (snd (delayConsecutive s r cb),
                 hs[i := Replaced (fst (delayConsecutive s r cb))])"
    using assms by (simp add: delayConsecutive_eq cmpEqual_iff)
next
  fix sched :: "nat list"
  assume "priorRequest s \<noteq> currentRequest s r cb" and "sched \<in> shuffles [0, 0, 0] [1, 1, 1]"
  then show "runHandlers sched (s, [Ready r cb, Ready r cb]) =
                 Some (s\<lparr>priorRequest := currentRequest s r cb\<rparr>,
                       [Replaced (if sched = [1, 1, 1, 0, 0, 0]
                                  then Some (delayDuration s) else None),
                        Replaced (if sched = [0, 0, 0, 1, 1, 1]
                                  then Some (delayDuration s) else None)])"
    by (rule two_handlers_run)
qed

theorem handlers_are_not_mutually_excluded_witness:
  \<open>(0 :: nat) < length [Ready examplePost ''{"body": "good_message"}'',
                         Ready examplePost ''{"body": "good_message"}''] \<and>
   [Ready examplePost ''{"body": "good_message"}'',
    Ready examplePost ''{"body": "good_message"}''] ! 0 =
     Ready examplePost ''{"body": "good_message"}'' \<and>
   priorRequest exampleServer \<noteq>
     currentRequest exampleServer examplePost ''{"body": "good_message"}'' \<and>
   [0, 0, 1, 1, 0, 1] \<in> shuffles [0, 0, 0] [1, 1, 1 :: nat] \<and>
   [0, 0, 0, 1, 1, 1] \<in> shuffles [0, 0, 0] [1, 1, 1 :: nat] \<and>
   runHandlers [0, 0, 1, 1, 0, 1]
     (exampleServer, [Ready examplePost ''{"body": "good_message"}'',
                      Ready examplePost ''{"body": "good_message"}'']) =
     Some (afterExamplePost, [Replaced None, Replaced None]) \<and>
   runHandlers [0, 0, 0, 1, 1, 1]
     (exampleServer, [Ready examplePost ''{"body": "good_message"}'',
                      Ready examplePost ''{"body": "good_message"}'']) =
     Some (afterExamplePost, [Replaced None, Replaced (Some 2000000000)])\<close>
proof -
  let ?cb = \<open>''{"body": "good_message"}''\<close>
  let ?hs = "[Ready examplePost ?cb, Ready examplePost ?cb]"
  have a: "(0 :: nat) < length ?hs" by simp
  have b: "?hs ! 0 = Ready examplePost ?cb" by simp
  have n: "priorRequest exampleServer \<noteq> currentRequest exampleServer examplePost ?cb"
    by (simp add: exampleServer_def emptyRequestCopy_def currentRequest_def)
  have m1: "[0, 0, 1, 1, 0, 1] \<in> shuffles [0, 0, 0] [1, 1, 1 :: nat]"
    and m2: "[0, 0, 0, 1, 1, 1] \<in> shuffles [0, 0, 0] [1, 1, 1 :: nat]"
    by (simp_all add: shuffles_three)
  have d: "delayDuration exampleServer = 2000000000"
    by (simp add: delayDuration_def exampleServer_def time_Second_def)
  have u: "exampleServer\<lparr>priorRequest := currentRequest exampleServer examplePost ?cb\<rparr> =
             afterExamplePost"
    by (simp add: afterExamplePost_def)
  note t = handlers_are_not_mutually_excluded [OF a b, of exampleServer, THEN conjunct2, rule_format, OF n]
  have r1: "runHandlers [0, 0, 1, 1, 0, 1] (exampleServer, ?hs) =
     Some (afterExamplePost, [Replaced None, Replaced None])"
    using t [OF m1] by (simp add: u)
  have r2: "runHandlers [0, 0, 0, 1, 1, 1] (exampleServer, ?hs) =
     Some (afterExamplePost, [Replaced None, Replaced (Some 2000000000)])"
    using t [OF m2] by (simp add: u d)
  from a b n m1 m2 r1 r2 show ?thesis by (intro conjI)
qed

text \<open>
  C9 as stated fails: two handlers of the same request, started on a server whose prior
  request is another one, can both read the prior request before either replaces it,
  and then neither sleeps; in both orders in which one handler runs after the other,
  the second one sleeps.
\<close>

theorem overlapping_handlers_race_counterexample:
  \<open>runHandlers [0, 1, 0, 1, 0, 1]
     (exampleServer, [Ready examplePost ''{"body": "good_message"}'',
                      Ready examplePost ''{"body": "good_message"}'']) =
     Some (afterExamplePost, [Replaced None, Replaced None]) \<and>
   runHandlers [0, 0, 0, 1, 1, 1]
     (exampleServer, [Ready examplePost ''{"body": "good_message"}'',
                      Ready examplePost ''{"body": "good_message"}'']) =
     Some (afterExamplePost, [Replaced None, Replaced (Some 2000000000)]) \<and>
   runHandlers [1, 1, 1, 0, 0, 0]
     (exampleServer, [Ready examplePost ''{"body": "good_message"}'',
                      Ready examplePost ''{"body": "good_message"}'']) =
     Some (afterExamplePost, [Replaced (Some 2000000000), Replaced None])\<close>
proof -
  let ?cb = \<open>''{"body": "good_message"}''\<close>
  let ?cr = "currentRequest exampleServer examplePost ?cb"
  have c: "currentRequest afterExamplePost examplePost ?cb = ?cr"
    by (simp add: afterExamplePost_def currentRequest_def)
  have n: "priorRequest exampleServer \<noteq> ?cr"
    by (simp add: exampleServer_def emptyRequestCopy_def currentRequest_def)
  have p: "priorRequest afterExamplePost = ?cr"
    by (simp add: afterExamplePost_def)
  have d: "delayDuration afterExamplePost = 2000000000"
    by (simp add: delayDuration_def afterExamplePost_def exampleServer_def time_Second_def)
  have a: "exampleServer\<lparr>priorRequest := ?cr\<rparr> = afterExamplePost"
    by (simp add: afterExamplePost_def)
  have u: "afterExamplePost\<lparr>priorRequest := ?cr\<rparr> = afterExamplePost"
    by (simp add: afterExamplePost_def)
  show ?thesis
    by (simp add: cmpEqual_iff c n p d a u)
qed

end
